theory Spec2Isabelle
  imports Complex_Main "HOL-Library.AList"
begin

section \<open>JavaScript values\<close>

text \<open>
  The adapter \<^verbatim>\<open>modules/apsBidAdapter.js\<close> works on untyped JSON-like data: the ORTB request
  and response, bids, configuration values. They are modelled by one datatype of values.

  Numbers: a finite number is modelled by its exact value (a rational), so \<open>-0\<close> and \<open>0\<close>
  are one value (no operation of the adapter tells them apart); \<open>NaN\<close> and the two
  infinities are kept, since truthiness and \<open>>=\<close> treat them specially.

  Objects are association lists in insertion order. Arrays carry their elements and,
  as in JavaScript, may carry named properties of their own beside them.
\<close>

datatype jsnum = NaN | PosInf | NegInf | Fin rat

datatype jsval =
    JUndefined
  | JNull
  | JBool bool
  | JNum jsnum
  | JStr string
  | JArr "jsval list" "(string \<times> jsval) list"
  | JObj "(string \<times> jsval) list"

text \<open>A computation that may throw: \<open>Inl\<close> holds the thrown value, \<open>Inr\<close> the result.\<close>

type_synonym 'a result = "jsval + 'a"

definition thenE :: "'a result \<Rightarrow> ('a \<Rightarrow> 'b result) \<Rightarrow> 'b result" where
  "thenE m f = (case m of Inl e \<Rightarrow> Inl e | Inr x \<Rightarrow> f x)"

text \<open>
  Error objects are objects with a \<open>name\<close> and a \<open>message\<close>. \<open>mk_Error\<close> is
  \<^verbatim>\<open>new Error(msg)\<close>; \<open>TypeError\<close> is the error the engine raises itself (its message
  is engine specific, the model gives a short description instead).
\<close>

definition mk_Error :: "string \<Rightarrow> jsval" where
  "mk_Error msg = JObj [(''name'', JStr ''Error''), (''message'', JStr msg)]"

definition TypeError :: "string \<Rightarrow> jsval" where
  "TypeError what = JObj [(''name'', JStr ''TypeError''), (''message'', JStr what)]"

text \<open>Truthiness (\<^verbatim>\<open>if (v)\<close>, \<^verbatim>\<open>!v\<close>, \<^verbatim>\<open>a || b\<close>).\<close>

fun truthy :: "jsval \<Rightarrow> bool" where
  "truthy JUndefined = False"
| "truthy JNull = False"
| "truthy (JBool b) = b"
| "truthy (JNum n) = (n \<noteq> NaN \<and> n \<noteq> Fin 0)"
| "truthy (JStr s) = (s \<noteq> [])"
| "truthy (JArr xs ps) = True"
| "truthy (JObj ps) = True"

text \<open>\<^verbatim>\<open>v == null\<close>, the test behind \<^verbatim>\<open>??\<close> and \<^verbatim>\<open>?.\<close> as well.\<close>

fun nullish :: "jsval \<Rightarrow> bool" where
  "nullish JUndefined = True"
| "nullish JNull = True"
| "nullish v = False"

fun isArray :: "jsval \<Rightarrow> bool" where
  "isArray (JArr xs ps) = True"
| "isArray v = False"

fun elems :: "jsval \<Rightarrow> jsval list" where
  "elems (JArr xs ps) = xs"
| "elems v = []"

fun set_elems :: "jsval \<Rightarrow> jsval list \<Rightarrow> jsval" where
  "set_elems (JArr xs ps) ys = JArr ys ps"
| "set_elems v ys = v"

text \<open>The named own properties of a value (none on a primitive).\<close>

fun own_props :: "jsval \<Rightarrow> (string \<times> jsval) list" where
  "own_props (JObj ps) = ps"
| "own_props (JArr xs ps) = ps"
| "own_props v = []"

text \<open>An object or an array, as opposed to a primitive value.\<close>

fun objlike :: "jsval \<Rightarrow> bool" where
  "objlike (JObj ps) = True"
| "objlike (JArr xs ps) = True"
| "objlike v = False"

definition has_own :: "jsval \<Rightarrow> string \<Rightarrow> bool" where
  "has_own v k = (k \<in> fst ` set (own_props v))"

definition lookup :: "(string \<times> jsval) list \<Rightarrow> string \<Rightarrow> jsval" where
  "lookup ps k = (case map_of ps k of None \<Rightarrow> JUndefined | Some v \<Rightarrow> v)"

text \<open>
  Reading \<^verbatim>\<open>v.k\<close> of a value that is neither \<^verbatim>\<open>null\<close> nor \<^verbatim>\<open>undefined\<close>. The adapter
  reads only the property names written in its text, none of which is inherited from a
  prototype; \<open>length\<close> is the one built-in own property that matters.
\<close>

fun prop_of :: "jsval \<Rightarrow> string \<Rightarrow> jsval" where
  "prop_of (JObj ps) k = lookup ps k"
| "prop_of (JArr xs ps) k =
     (if k = ''length'' then JNum (Fin (of_nat (length xs))) else lookup ps k)"
| "prop_of (JStr s) k =
     (if k = ''length'' then JNum (Fin (of_nat (length s))) else JUndefined)"
| "prop_of v k = JUndefined"

text \<open>\<^verbatim>\<open>v.k\<close>: a TypeError on \<^verbatim>\<open>null\<close> and \<^verbatim>\<open>undefined\<close>.\<close>

definition get_prop :: "jsval \<Rightarrow> string \<Rightarrow> jsval result" where
  "get_prop v k =
     (if nullish v then Inl (TypeError (''cannot read property '' @ k)) else Inr (prop_of v k))"

text \<open>\<^verbatim>\<open>v?.k\<close>\<close>

definition opt_get :: "jsval \<Rightarrow> string \<Rightarrow> jsval" where
  "opt_get v k = (if nullish v then JUndefined else prop_of v k)"

text \<open>
  \<^verbatim>\<open>v.k = x\<close> in strict mode (the file is an ES module): a TypeError on \<^verbatim>\<open>null\<close>,
  \<^verbatim>\<open>undefined\<close> and on a primitive. The result is the value after the assignment.
\<close>

fun set_prop :: "jsval \<Rightarrow> string \<Rightarrow> jsval \<Rightarrow> jsval result" where
  "set_prop (JObj ps) k x = Inr (JObj (AList.update k x ps))"
| "set_prop (JArr xs ps) k x = Inr (JArr xs (AList.update k x ps))"
| "set_prop v k x = Inl (TypeError (''cannot set property '' @ k))"

text \<open>
  \<^verbatim>\<open>delete v.k\<close> for a value that is neither \<^verbatim>\<open>null\<close> nor \<^verbatim>\<open>undefined\<close>: the key
  leaves an object; a primitive has no such key and stays as it is.
\<close>

fun delete_own :: "string \<Rightarrow> jsval \<Rightarrow> jsval" where
  "delete_own k (JObj ps) = JObj (AList.delete k ps)"
| "delete_own k (JArr xs ps) = JArr xs (AList.delete k ps)"
| "delete_own k v = v"

text \<open>
  The objects of a request are mutated in place. In the model a change to the object
  held in \<^verbatim>\<open>v.k\<close> is a change of \<open>v\<close>: \<open>update_in v k f\<close> applies \<open>f\<close> to that object.
\<close>

fun update_in :: "jsval \<Rightarrow> string \<Rightarrow> (jsval \<Rightarrow> jsval) \<Rightarrow> jsval" where
  "update_in (JObj ps) k f = JObj (AList.update k (f (lookup ps k)) ps)"
| "update_in (JArr xs ps) k f = JArr xs (AList.update k (f (lookup ps k)) ps)"
| "update_in v k f = v"

section \<open>The runtime\<close>

text \<open>
  The built-in conversions of the JavaScript engine that the adapter calls are
  parameters of the model: number formatting, the string form of an object or array
  (which throws a TypeError when the object offers no usable \<^verbatim>\<open>toString\<close>), the numeric
  value of a string, \<^verbatim>\<open>JSON.stringify\<close> (a string, or \<^verbatim>\<open>undefined\<close>) and \<^verbatim>\<open>btoa\<close>
  (which may throw).
\<close>

record runtime =
  NumberToString :: "jsnum \<Rightarrow> string"
  ObjectToString :: "jsval \<Rightarrow> string result"
  StringToNumber :: "string \<Rightarrow> jsnum"
  JSON_stringify :: "jsval \<Rightarrow> jsval"
  btoa :: "string \<Rightarrow> string result"

text \<open>String conversion, as a template literal \<^verbatim>\<open>${v}\<close> and string \<^verbatim>\<open>+\<close> do it.\<close>

fun ToString :: "runtime \<Rightarrow> jsval \<Rightarrow> string result" where
  "ToString rt JUndefined = Inr ''undefined''"
| "ToString rt JNull = Inr ''null''"
| "ToString rt (JBool b) = Inr (if b then ''true'' else ''false'')"
| "ToString rt (JNum n) = Inr (NumberToString rt n)"
| "ToString rt (JStr s) = Inr s"
| "ToString rt (JArr xs ps) = ObjectToString rt (JArr xs ps)"
| "ToString rt (JObj ps) = ObjectToString rt (JObj ps)"

text \<open>
  Numeric conversion, as a comparison does it: an object or array goes through its
  string form.
\<close>

fun ToNumber :: "runtime \<Rightarrow> jsval \<Rightarrow> jsnum result" where
  "ToNumber rt JUndefined = Inr NaN"
| "ToNumber rt JNull = Inr (Fin 0)"
| "ToNumber rt (JBool b) = Inr (if b then Fin 1 else Fin 0)"
| "ToNumber rt (JNum n) = Inr n"
| "ToNumber rt (JStr s) = Inr (StringToNumber rt s)"
| "ToNumber rt (JArr xs ps) =
     thenE (ObjectToString rt (JArr xs ps)) (\<lambda>s. Inr (StringToNumber rt s))"
| "ToNumber rt (JObj ps) =
     thenE (ObjectToString rt (JObj ps)) (\<lambda>s. Inr (StringToNumber rt s))"

text \<open>\<^verbatim>\<open>v >= 0\<close>\<close>

definition ge_zero :: "runtime \<Rightarrow> jsval \<Rightarrow> bool result" where
  "ge_zero rt v =
     thenE (ToNumber rt v) (\<lambda>n.
     Inr (case n of NaN \<Rightarrow> False | PosInf \<Rightarrow> True | NegInf \<Rightarrow> False | Fin q \<Rightarrow> 0 \<le> q))"

text \<open>\<^verbatim>\<open>typeof v === 'number'\<close>\<close>

fun is_number :: "jsval \<Rightarrow> bool" where
  "is_number (JNum n) = True"
| "is_number v = False"

text \<open>
  \<^verbatim>\<open>String.prototype.trim\<close>: white space and line terminators leave both ends. Of the
  characters a \<open>string\<close> of the model can hold these are TAB, LF, VT, FF, CR, space and
  the no-break space.
\<close>

definition is_whitespace :: "char \<Rightarrow> bool" where
  "is_whitespace c = (of_char c \<in> {9, 10, 11, 12, 13, 32, 160 :: nat})"

definition trim :: "string \<Rightarrow> string" where
  "trim s = rev (dropWhile is_whitespace (rev (dropWhile is_whitespace s)))"

section \<open>Account validation\<close>

text \<open>
  Modelled from the spec: \<^verbatim>\<open>isNumber\<close> and \<^verbatim>\<open>isStr\<close> of \<^verbatim>\<open>src/utils.js\<close>, which is not
  part of the file. The spec: a number is "any value including zero"; a string is a
  value of string type.
\<close>

fun isNumber :: "jsval \<Rightarrow> bool" where
  "isNumber (JNum n) = True"
| "isNumber v = False"

fun isStr :: "jsval \<Rightarrow> bool" where
  "isStr (JStr s) = True"
| "isStr v = False"

fun str_of :: "jsval \<Rightarrow> string" where
  "str_of (JStr s) = s"
| "str_of v = []"

definition isValidAccountID :: "jsval \<Rightarrow> bool" where
  "isValidAccountID accountID =
     (if nullish accountID then False
      else if isNumber accountID then True
      else if isStr accountID then length (trim (str_of accountID)) > 0
      else False)"

section \<open>Configuration, the global event structure and the log\<close>

text \<open>
  Modelled from the spec: \<^verbatim>\<open>config.readConfig\<close> of \<^verbatim>\<open>src/config.js\<close>, which is not part
  of the file. The spec lists the "configuration keys consumed (namespace \<^verbatim>\<open>aps.*\<close>)";
  the adapter only reads them. The configuration is a function from keys to values,
  \<^verbatim>\<open>undefined\<close> where nothing is configured.
\<close>

type_synonym config = "string \<Rightarrow> jsval"

definition readConfig :: "config \<Rightarrow> string \<Rightarrow> jsval" where
  "readConfig cfg key = cfg key"

definition ADAPTER_VERSION :: string where
  "ADAPTER_VERSION = ''2.0.0''"

text \<open>
  \<^verbatim>\<open>window._aps\<close> is \<^verbatim>\<open>undefined\<close> or a \<^verbatim>\<open>Map\<close> from account identifiers to
  \<^verbatim>\<open>{queue, store}\<close> objects, which is what \<^verbatim>\<open>record\<close> and the creative script create.
  The map is an association list in insertion order; keys are compared as values.
\<close>

record custom_event =
  ev_type :: string
  detail :: "(string \<times> jsval) list"

record account_store =
  queue :: "custom_event list"
  store :: "(jsval \<times> jsval) list"

datatype log_entry = Warn string | Err string jsval

record world =
  aps :: "(jsval \<times> account_store) list option"
  console :: "log_entry list"

text \<open>
  Modelled from the spec: \<^verbatim>\<open>logWarn\<close> and \<^verbatim>\<open>logError\<close> of \<^verbatim>\<open>src/utils.js\<close>, which are
  not part of the file. The spec: the adapter "logs a warning" for an invalid account,
  and a caught exception is "logged". Each call adds an entry to the log of the world.
\<close>

definition logWarn :: "string \<Rightarrow> world \<Rightarrow> world" where
  "logWarn msg w = w\<lparr>console := console w @ [Warn msg]\<rparr>"

definition logError :: "string \<Rightarrow> jsval \<Rightarrow> world \<Rightarrow> world" where
  "logError msg err w = w\<lparr>console := console w @ [Err msg err]\<rparr>"

definition Map_has :: "('k \<times> 'v) list \<Rightarrow> 'k \<Rightarrow> bool" where
  "Map_has m k = (map_of m k \<noteq> None)"

definition Map_set :: "('k \<times> 'v) list \<Rightarrow> 'k \<Rightarrow> 'v \<Rightarrow> ('k \<times> 'v) list" where
  "Map_set m k v = AList.update k v m"

definition startsWith :: "string \<Rightarrow> string \<Rightarrow> bool" where
  "startsWith s p = (take (length p) s = p)"

text \<open>\<^verbatim>\<open>s.split(c)\<close> for a one-character separator.\<close>

fun split_on :: "char \<Rightarrow> string \<Rightarrow> string list" where
  "split_on c [] = [[]]"
| "split_on c (x # xs) =
     (if x = c then [] # split_on c xs
      else (case split_on c xs of [] \<Rightarrow> [[x]] | p # ps \<Rightarrow> (x # p) # ps))"

section \<open>The telemetry recorder\<close>

text \<open>
  The name under which \<^verbatim>\<open>record\<close> files an event, lines 36 to 44: the prefix
  \<^verbatim>\<open>prebidAdapter/\<close> unless the name has it, and \<^verbatim>\<open>/didTrigger\<close> at the end when the
  prefixed name has fewer than three parts.
\<close>

definition finalEventName :: "string \<Rightarrow> string" where
  "finalEventName eventName =
     (let prefixedEventName =
            (if startsWith eventName ''prebidAdapter/'' then eventName
             else ''prebidAdapter/'' @ eventName);
          parts = split_on CHR ''/'' prefixedEventName
      in if length parts < 3 then prefixedEventName @ ''/didTrigger'' else prefixedEventName)"

text \<open>
  \<^verbatim>\<open>record(eventName, data)\<close>, lines 30 to 74. Every caller passes an object literal or
  nothing as \<open>data\<close>: \<open>None\<close> is \<^verbatim>\<open>undefined\<close>, \<open>Some ps\<close> the object. The result is the
  world after the call.
\<close>

definition record_js :: "config \<Rightarrow> string \<Rightarrow> (string \<times> jsval) list option \<Rightarrow> world \<Rightarrow> world" where
  "record_js cfg eventName data w =
     (if readConfig cfg ''aps.telemetry'' = JBool False then w
      else
        let accountID = readConfig cfg ''aps.accountID'' in
        if \<not> truthy accountID then w
        else
          let m0 = (case aps w of None \<Rightarrow> [] | Some m \<Rightarrow> m);
              m1 = (if \<not> Map_has m0 accountID
                    then Map_set m0 accountID \<lparr>queue = [], store = []\<rparr>
                    else m0);
              detailData = (case data of None \<Rightarrow> [] | Some ps \<Rightarrow> ps);
              detailData1 =
                (if \<not> truthy (lookup detailData ''error'')
                 then AList.update ''analytics''
                        (if truthy (lookup detailData ''analytics'')
                         then lookup detailData ''analytics'' else JObj [])
                        detailData
                 else detailData);
              event = \<lparr>ev_type = finalEventName eventName,
                       detail = AList.update ''libraryVersion'' (JStr ADAPTER_VERSION)
                                  (AList.update ''source'' (JStr ''prebid-adapter'') detailData1)\<rparr>
          in w\<lparr>aps := Some (AList.map_entry accountID (\<lambda>a. a\<lparr>queue := queue a @ [event]\<rparr>) m1)\<rparr>)"

text \<open>The newest event in the queue of an account, when the queue has one.\<close>

definition last_event :: "world \<Rightarrow> jsval \<Rightarrow> custom_event option" where
  "last_event w accountID =
     (case aps w of
        None \<Rightarrow> None
      | Some m \<Rightarrow>
          (case map_of m accountID of
             None \<Rightarrow> None
           | Some a \<Rightarrow> (if queue a = [] then None else Some (last (queue a)))))"

section \<open>The framework-facing operations\<close>

text \<open>
  \<^verbatim>\<open>try { body } catch (err) { handler }\<close> over the world: the handler runs in the world
  the body left behind.
\<close>

definition try_catch ::
  "(world \<Rightarrow> 'a result \<times> world) \<Rightarrow> (jsval \<Rightarrow> world \<Rightarrow> 'a result \<times> world) \<Rightarrow> world \<Rightarrow> 'a result \<times> world" where
  "try_catch body handler w =
     (case body w of
        (Inl err, w') \<Rightarrow> handler err w'
      | (Inr v, w') \<Rightarrow> (Inr v, w'))"

text \<open>
  The body of \<^verbatim>\<open>isBidRequestValid\<close>'s \<^verbatim>\<open>try\<close>, lines 197 to 202. The message of the
  warning is a template literal, so an identifier without a string form throws there.
\<close>

definition isBidRequestValid_body :: "runtime \<Rightarrow> config \<Rightarrow> jsval \<Rightarrow> world \<Rightarrow> jsval result \<times> world" where
  "isBidRequestValid_body rt cfg bid w =
     (let accountID = readConfig cfg ''aps.accountID'' in
      if \<not> isValidAccountID accountID
      then (case ToString rt accountID of
              Inl err \<Rightarrow> (Inl err, w)
            | Inr text \<Rightarrow> (Inr (JBool False), logWarn (''Invalid accountID: '' @ text) w))
      else (Inr (JBool True), w))"

text \<open>
  \<^verbatim>\<open>spec.isBidRequestValid\<close>, lines 194 to 207. A function that ends without
  \<^verbatim>\<open>return\<close> returns \<^verbatim>\<open>undefined\<close>.
\<close>

definition isBidRequestValid :: "runtime \<Rightarrow> config \<Rightarrow> jsval \<Rightarrow> world \<Rightarrow> jsval result \<times> world" where
  "isBidRequestValid rt cfg bid w =
     try_catch (isBidRequestValid_body rt cfg bid)
       (\<lambda>err w'. (Inr JUndefined,
          logError ''Error while validating bid request'' err
            (record_js cfg ''isBidRequestValid/didError'' (Some [(''error'', err)]) w')))
       (record_js cfg ''isBidRequestValid'' None w)"

section \<open>The converter hooks\<close>

text \<open>
  Modelled from the spec: the constants \<^verbatim>\<open>BANNER\<close> and \<^verbatim>\<open>VIDEO\<close> of
  \<^verbatim>\<open>src/mediaTypes.js\<close>, which is not part of the file. The spec names the two media
  types the adapter supports, banner and video; the constants are their names.
\<close>

definition BANNER :: string where
  "BANNER = ''banner''"

definition VIDEO :: string where
  "VIDEO = ''video''"

text \<open>
  A method of \<^verbatim>\<open>Array.prototype\<close> (\<^verbatim>\<open>forEach\<close>, \<^verbatim>\<open>flatMap\<close>, \<^verbatim>\<open>includes\<close>) can be called
  on a value when the value is an array and no property of its own hides the method.
\<close>

definition array_method :: "jsval \<Rightarrow> string \<Rightarrow> bool" where
  "array_method v name = (isArray v \<and> map_of (own_props v) name = None)"

text \<open>
  \<^verbatim>\<open>xs.forEach((x, index) => ...)\<close> where the callback mutates \<open>x\<close> or throws: the
  callback of the model returns the element after the call, the loop the elements after
  the loop, and the first throw ends it.
\<close>

fun forEachE :: "(nat \<Rightarrow> 'a \<Rightarrow> 'a result) \<Rightarrow> nat \<Rightarrow> 'a list \<Rightarrow> 'a list result" where
  "forEachE f index [] = Inr []"
| "forEachE f index (x # xs) =
     thenE (f index x) (\<lambda>x'.
     thenE (forEachE f (Suc index) xs) (\<lambda>xs'. Inr (x' # xs')))"

text \<open>
  \<^verbatim>\<open>imp.banner.w >= 0 && imp.banner.h >= 0\<close>, line 146: the height is compared only
  when the width passes.
\<close>

definition doesHWExist :: "runtime \<Rightarrow> jsval \<Rightarrow> bool result" where
  "doesHWExist rt banner =
     thenE (ge_zero rt (prop_of banner ''w'')) (\<lambda>w_ok.
     if w_ok then ge_zero rt (prop_of banner ''h'') else Inr False)"

text \<open>The callback of \<^verbatim>\<open>request.imp.forEach\<close>, lines 137 to 160.\<close>

definition request_imp :: "runtime \<Rightarrow> nat \<Rightarrow> jsval \<Rightarrow> jsval result" where
  "request_imp rt index imp =
     (if \<not> truthy imp
      then Inl (mk_Error (''Impression at index '' @ NumberToString rt (Fin (of_nat index))
                          @ '' is null or undefined''))
      else
        let banner = prop_of imp ''banner'' in
        if \<not> truthy banner then Inr imp
        else
          thenE (doesHWExist rt banner) (\<lambda>doesHWExist.
          let format = prop_of banner ''format'';
              doesFormatExist = (isArray format \<and> length (elems format) > 0)
          in
            if \<not> doesHWExist \<and> doesFormatExist then
              (let format0 = hd (elems format) in
               if nullish format0 then Inl (TypeError ''cannot destructure format[0]'')
               else
                 let w = prop_of format0 ''w''; h = prop_of format0 ''h'' in
                 if \<not> is_number w \<or> \<not> is_number h
                 then thenE (ToString rt w) (\<lambda>w_text.
                      thenE (ToString rt h) (\<lambda>h_text.
                      Inl (mk_Error (''Invalid banner format dimensions at impression ''
                                     @ NumberToString rt (Fin (of_nat index))
                                     @ '': w='' @ w_text @ '', h='' @ h_text))))
                 else
                   thenE (set_prop banner ''w'' w) (\<lambda>banner1.
                   thenE (set_prop banner1 ''h'' h) (\<lambda>banner2.
                   Inr (update_in imp ''banner'' (\<lambda>b. banner2)))))
            else Inr imp))"

text \<open>
  The \<^verbatim>\<open>request\<close> hook, lines 107 to 163, in its three parts. First the privacy
  edits, lines 110 to 126: the request after them, or the TypeError of \<^verbatim>\<open>request.user\<close>
  on a request that is \<^verbatim>\<open>null\<close> or \<^verbatim>\<open>undefined\<close>.
\<close>

definition privacy_edits :: "jsval \<Rightarrow> jsval result" where
  "privacy_edits request =
     (let request1 =
            (if truthy (opt_get (opt_get request ''device'') ''geo'')
             then update_in request ''device'' (\<lambda>device.
                    update_in device ''geo'' (\<lambda>geo.
                      delete_own ''lon'' (delete_own ''lat'' geo)))
             else request)
      in
      thenE (get_prop request1 ''user'') (\<lambda>user.
      Inr (if truthy user
           then update_in request1 ''user'' (\<lambda>u.
                  delete_own ''data'' (delete_own ''geo'' (delete_own ''customdata''
                    (delete_own ''kwarry'' (delete_own ''keywords''
                      (delete_own ''yob'' (delete_own ''gender'' u)))))))
           else request1)))"

text \<open>The account and the default currency, lines 128 to 130.\<close>

definition account_and_currency :: "config \<Rightarrow> jsval \<Rightarrow> jsval result" where
  "account_and_currency cfg request =
     thenE (set_prop request ''ext''
              (if nullish (prop_of request ''ext'') then JObj [] else prop_of request ''ext''))
       (\<lambda>request1.
     thenE (set_prop (prop_of request1 ''ext'') ''account'' (readConfig cfg ''aps.accountID''))
       (\<lambda>ext1.
     let request2 = update_in request1 ''ext'' (\<lambda>e. ext1) in
     set_prop request2 ''cur''
       (if nullish (prop_of request2 ''cur'') then JArr [JStr ''USD''] []
        else prop_of request2 ''cur'')))"

text \<open>The impressions, lines 132 to 162.\<close>

definition check_impressions :: "runtime \<Rightarrow> jsval \<Rightarrow> jsval result" where
  "check_impressions rt request =
     (let imp = prop_of request ''imp'' in
      if \<not> truthy imp \<or> \<not> isArray imp
      then Inl (mk_Error ''Request must contain a valid impressions array'')
      else if \<not> array_method imp ''forEach''
      then Inl (TypeError ''forEach is not a function'')
      else
        thenE (forEachE (request_imp rt) 0 (elems imp)) (\<lambda>imps1.
        Inr (update_in request ''imp'' (\<lambda>a. set_elems a imps1))))"

text \<open>
  The hook: \<open>buildRequest\<close> is the generic builder the converter library hands to it,
  the result is the request the hook returns.
\<close>

definition converter_request ::
  "runtime \<Rightarrow> config \<Rightarrow> (jsval \<Rightarrow> jsval \<Rightarrow> jsval \<Rightarrow> jsval result) \<Rightarrow> jsval \<Rightarrow> jsval \<Rightarrow> jsval \<Rightarrow> jsval result" where
  "converter_request rt cfg buildRequest imps bidderRequest context =
     thenE (buildRequest imps bidderRequest context) (\<lambda>request.
     thenE (privacy_edits request) (\<lambda>request1.
     thenE (account_and_currency cfg request1) (\<lambda>request2.
     check_impressions rt request2)))"

text \<open>
  The \<^verbatim>\<open>bidResponse\<close> hook, lines 165 to 179. The hook deletes \<^verbatim>\<open>adm\<close> from the wire
  bid it was given, so the result is a pair: the wire bid after the call, and the bid
  response the hook returns.
\<close>

definition converter_bidResponse ::
  "(jsval \<Rightarrow> jsval \<Rightarrow> jsval result) \<Rightarrow> jsval \<Rightarrow> jsval \<Rightarrow> (jsval \<times> jsval) result" where
  "converter_bidResponse buildBidResponse bid context =
     thenE (get_prop bid ''mtype'') (\<lambda>mtype.
     let vastUrl = (if mtype = JNum (Fin 2) then prop_of bid ''adm'' else JUndefined);
         bid1 = (if mtype = JNum (Fin 2) then delete_own ''adm'' bid else bid)
     in
     thenE (buildBidResponse bid1 context) (\<lambda>bidResponse.
     thenE (get_prop bidResponse ''mediaType'') (\<lambda>mediaType.
     if mediaType = JStr VIDEO
     then thenE (set_prop bidResponse ''vastUrl'' vastUrl) (\<lambda>bidResponse1.
          Inr (bid1, bidResponse1))
     else Inr (bid1, bidResponse))))"

section \<open>The converter library\<close>

text \<open>
  Modelled from the spec: the generic converter (\<^verbatim>\<open>libraries/ortbConverter\<close>) is not
  part of the file. The spec: the adapter "depends on one injected collaborator,
  ORTBConverter, which performs generic bid-request/bid-response shape translation; the
  adapter layers exchange-specific field edits on top via pre/post hooks". Its parts are
  parameters: how it builds the impressions and the hook's context from the bid
  requests, its generic request builder, and how it turns a response into bids given
  the \<^verbatim>\<open>bidResponse\<close> hook, to which it hands its generic bid-response builder. Each
  may throw.

  The wire bids that the library hands to the \<^verbatim>\<open>bidResponse\<close> hook are objects of the
  response it was given, and the hook deletes from them in place. So the library is
  given the hook as a call that yields the wire bid as the call leaves it beside the
  outcome of the call, and \<open>lib_fromORTB\<close> yields the response as the conversion leaves
  it beside the interpreted response.
\<close>

record ortb_library =
  lib_imps :: "jsval \<Rightarrow> jsval \<Rightarrow> (jsval \<times> jsval) result"
  lib_buildRequest :: "jsval \<Rightarrow> jsval \<Rightarrow> jsval \<Rightarrow> jsval result"
  lib_fromORTB ::
    "((jsval \<Rightarrow> jsval \<Rightarrow> jsval result) \<Rightarrow> jsval \<Rightarrow> jsval \<Rightarrow> jsval \<times> jsval result)
      \<Rightarrow> jsval \<Rightarrow> jsval \<Rightarrow> (jsval \<times> jsval) result"

text \<open>
  Modelled from the spec: \<^verbatim>\<open>converter.toORTB({bidRequests, bidderRequest})\<close>, "delegates
  to ORTBConverter to produce the base wire request from all pending BidRequests", with
  the \<^verbatim>\<open>request\<close> hook around the generic builder.
\<close>

definition converter_toORTB ::
  "runtime \<Rightarrow> ortb_library \<Rightarrow> config \<Rightarrow> jsval \<Rightarrow> jsval \<Rightarrow> jsval result" where
  "converter_toORTB rt lib cfg bidRequests bidderRequest =
     thenE (lib_imps lib bidRequests bidderRequest) (\<lambda>(imps, context).
     converter_request rt cfg (lib_buildRequest lib) imps bidderRequest context)"

text \<open>
  A call of the \<^verbatim>\<open>bidResponse\<close> hook on a wire bid that is an object of the response.
  The deletion at line 170 comes before everything else that the hook does with a
  wire bid whose \<^verbatim>\<open>mtype\<close> is 2, so such a bid is left without \<^verbatim>\<open>adm\<close> whether the
  call then returns or throws; every other wire bid is left as it was (\<^verbatim>\<open>null\<close> and
  \<^verbatim>\<open>undefined\<close>, on which line 167 throws, among them). The result is the wire bid as
  the call leaves it, and the outcome of the call: the bid response, or what was thrown.
\<close>

definition bidResponse_in_place ::
  "(jsval \<Rightarrow> jsval \<Rightarrow> jsval result) \<Rightarrow> jsval \<Rightarrow> jsval \<Rightarrow> jsval \<times> jsval result" where
  "bidResponse_in_place buildBidResponse bid context =
     (if prop_of bid ''mtype'' = JNum (Fin 2) then delete_own ''adm'' bid else bid,
      thenE (converter_bidResponse buildBidResponse bid context) (\<lambda>(bid1, bidResponse).
      Inr bidResponse))"

text \<open>
  Modelled from the spec: \<^verbatim>\<open>converter.fromORTB({response, request})\<close>, "delegates to
  ORTBConverter to map wire-format bids to normalized Bid objects", with the
  \<^verbatim>\<open>bidResponse\<close> hook installed. The result is the response object after the call and
  the interpreted response.
\<close>

definition converter_fromORTB ::
  "ortb_library \<Rightarrow> jsval \<Rightarrow> jsval \<Rightarrow> (jsval \<times> jsval) result" where
  "converter_fromORTB lib response request =
     lib_fromORTB lib bidResponse_in_place response request"

section \<open>Building the request\<close>

definition AAX_ENDPOINT :: string where
  "AAX_ENDPOINT = ''https://web.ads.aps.amazon-adsystem.com/e/pb/bid''"

definition DEFAULT_PREBID_CREATIVE_JS_URL :: string where
  "DEFAULT_PREBID_CREATIVE_JS_URL = ''https://client.aps.amazon-adsystem.com/prebid-creative.js''"

text \<open>
  \<^verbatim>\<open>endpoint.includes('?')\<close>: a substring test on a string, a membership test on an
  array, a TypeError on every other value (which has no such method).
\<close>

definition includes_qm :: "jsval \<Rightarrow> bool result" where
  "includes_qm endpoint =
     (case endpoint of
        JStr s \<Rightarrow> Inr (CHR ''?'' \<in> set s)
      | JArr xs ps \<Rightarrow>
          (if array_method endpoint ''includes'' then Inr (JStr ''?'' \<in> set xs)
           else Inl (TypeError ''includes is not a function''))
      | _ \<Rightarrow> Inl (TypeError ''includes is not a function''))"

text \<open>The body of \<^verbatim>\<open>buildRequests\<close>'s \<^verbatim>\<open>try\<close>, lines 218 to 236.\<close>

definition buildRequests_body ::
  "runtime \<Rightarrow> ortb_library \<Rightarrow> config \<Rightarrow> jsval \<Rightarrow> jsval \<Rightarrow> jsval result" where
  "buildRequests_body rt lib cfg bidRequests bidderRequest =
     (let endpoint0 =
            (if nullish (readConfig cfg ''aps.debugURL'') then JStr AAX_ENDPOINT
             else readConfig cfg ''aps.debugURL'')
      in
      thenE (if truthy (readConfig cfg ''aps.debug'') then
               thenE (includes_qm endpoint0) (\<lambda>hasQuery.
               let debugQueryChar = (if hasQuery then ''&'' else ''?'');
                   renderMethod = readConfig cfg ''aps.renderMethod''
               in
               thenE (ToString rt endpoint0) (\<lambda>endpoint_text.
               if renderMethod = JStr ''fif''
               then Inr (JStr (endpoint_text @ debugQueryChar
                               @ ''amzn_debug_mode=fif&amzn_debug_mode=1''))
               else Inr (JStr (endpoint_text @ debugQueryChar @ ''amzn_debug_mode=1''))))
             else Inr endpoint0)
        (\<lambda>endpoint.
      thenE (converter_toORTB rt lib cfg bidRequests bidderRequest) (\<lambda>data.
      Inr (JObj [(''method'', JStr ''POST''),
                 (''url'', endpoint),
                 (''data'', data),
                 (''options'', JObj [(''contentType'', JStr ''application/json'')])]))))"

text \<open>\<^verbatim>\<open>spec.buildRequests\<close>, lines 215 to 241.\<close>

definition buildRequests ::
  "runtime \<Rightarrow> ortb_library \<Rightarrow> config \<Rightarrow> jsval \<Rightarrow> jsval \<Rightarrow> world \<Rightarrow> jsval result \<times> world" where
  "buildRequests rt lib cfg bidRequests bidderRequest w =
     try_catch (\<lambda>w'. (buildRequests_body rt lib cfg bidRequests bidderRequest, w'))
       (\<lambda>err w'. (Inr JUndefined,
          logError ''Error while building bid request'' err
            (record_js cfg ''buildRequests/didError'' (Some [(''error'', err)]) w')))
       (record_js cfg ''buildRequests'' None w)"

section \<open>Interpreting the response\<close>

text \<open>
  The markup of a bid that is not a video bid, lines 265 to 280, before \<^verbatim>\<open>trim()\<close>:
  the text of the template with its four interpolated strings.
\<close>

definition creative_markup :: "string \<Rightarrow> string \<Rightarrow> string \<Rightarrow> string \<Rightarrow> string" where
  \<open>creative_markup creativeUrl accountID aaxResponse seatBidId =
     ''<script src="'' @ creativeUrl @ ''"></script>\<newline>''
     @ ''<script>\<newline>''
     @ ''  const accountID = '' @ [CHR 0x27] @ accountID @ [CHR 0x27] @ '';\<newline>''
     @ ''  window._aps = window._aps || new Map();\<newline>''
     @ ''  if (!window._aps.has(accountID)) {\<newline>''
     @ ''    window._aps.set(accountID, { queue: [], store: new Map([['listeners', new Map()]]) });\<newline>''
     @ ''  }\<newline>''
     @ ''  window._aps.get(accountID).queue.push(\<newline>''
     @ ''    new CustomEvent('prebid/creative/render', {\<newline>''
     @ ''      detail: {\<newline>''
     @ ''        aaxResponse: '' @ [CHR 0x27] @ aaxResponse @ [CHR 0x27] @ '',\<newline>''
     @ ''        seatBidId: '' @ seatBidId @ ''\<newline>''
     @ ''      }\<newline>''
     @ ''    })\<newline>''
     @ ''  );\<newline>''
     @ ''</script>''\<close>

text \<open>
  The callback of \<^verbatim>\<open>interpretedResponse.bids.forEach\<close>, lines 262 to 282. The template
  converts its four values to strings from left to right, then the markup is assigned.
  \<open>body\<close> is what \<^verbatim>\<open>response.body\<close> holds when the callback runs.
\<close>

definition interpret_bid ::
  "runtime \<Rightarrow> jsval \<Rightarrow> jsval \<Rightarrow> jsval \<Rightarrow> nat \<Rightarrow> jsval \<Rightarrow> jsval result" where
  "interpret_bid rt accountID creativeUrl body index bid =
     thenE (get_prop bid ''mediaType'') (\<lambda>mediaType.
     if mediaType \<noteq> JStr VIDEO then
       (let bid1 = delete_own ''ad'' bid in
        thenE (ToString rt creativeUrl) (\<lambda>creativeUrl_text.
        thenE (ToString rt accountID) (\<lambda>accountID_text.
        thenE (ToString rt (JSON_stringify rt body)) (\<lambda>body_json.
        thenE (btoa rt body_json) (\<lambda>aaxResponse.
        thenE (ToString rt (JSON_stringify rt (prop_of bid1 ''seatBidId''))) (\<lambda>seatBidId_json.
        set_prop bid1 ''ad''
          (JStr (trim (creative_markup creativeUrl_text accountID_text aaxResponse
                         seatBidId_json)))))))))
     else Inr bid)"

text \<open>
  The body of \<^verbatim>\<open>interpretResponse\<close>'s \<^verbatim>\<open>try\<close>, lines 253 to 284. Line 275 reads
  \<^verbatim>\<open>response.body\<close> after the conversion of line 253, which was given that same object:
  what the template serialises is the body as the conversion left it.
\<close>

definition interpretResponse_body ::
  "runtime \<Rightarrow> ortb_library \<Rightarrow> config \<Rightarrow> jsval \<Rightarrow> jsval \<Rightarrow> jsval result" where
  "interpretResponse_body rt lib cfg response request =
     thenE (get_prop response ''body'') (\<lambda>body.
     thenE (get_prop request ''data'') (\<lambda>data.
     thenE (converter_fromORTB lib body data) (\<lambda>(body1, interpretedResponse).
     let accountID = readConfig cfg ''aps.accountID'';
         creativeUrl =
           (if truthy (readConfig cfg ''aps.creativeURL'') then readConfig cfg ''aps.creativeURL''
            else JStr DEFAULT_PREBID_CREATIVE_JS_URL)
     in
     thenE (get_prop interpretedResponse ''bids'') (\<lambda>bids.
     if nullish bids then Inl (TypeError ''cannot read property forEach'')
     else if \<not> array_method bids ''forEach'' then Inl (TypeError ''forEach is not a function'')
     else
       thenE (forEachE (interpret_bid rt accountID creativeUrl body1) 0 (elems bids)) (\<lambda>bids1.
       Inr (set_elems bids bids1))))))"

text \<open>\<^verbatim>\<open>spec.interpretResponse\<close>, lines 250 to 289.\<close>

definition interpretResponse ::
  "runtime \<Rightarrow> ortb_library \<Rightarrow> config \<Rightarrow> jsval \<Rightarrow> jsval \<Rightarrow> world \<Rightarrow> jsval result \<times> world" where
  "interpretResponse rt lib cfg response request w =
     try_catch (\<lambda>w'. (interpretResponse_body rt lib cfg response request, w'))
       (\<lambda>err w'. (Inr JUndefined,
          logError ''Error while interpreting bid response'' err
            (record_js cfg ''interpretResponse/didError'' (Some [(''error'', err)]) w')))
       (record_js cfg ''interpretResponse'' None w)"

section \<open>User syncs\<close>

text \<open>The callback of \<^verbatim>\<open>flatMap\<close>, line 309: \<^verbatim>\<open>res?.body?.ext?.userSyncs ?? []\<close>.\<close>

definition userSyncs_of :: "jsval \<Rightarrow> jsval" where
  "userSyncs_of res =
     (let u = opt_get (opt_get (opt_get res ''body'') ''ext'') ''userSyncs'' in
      if nullish u then JArr [] [] else u)"

text \<open>\<^verbatim>\<open>flatMap\<close> flattens one level: an array gives its elements, another value itself.\<close>

definition flatten1 :: "jsval \<Rightarrow> jsval list" where
  "flatten1 v = (if isArray v then elems v else [v])"

definition flatMap :: "(jsval \<Rightarrow> jsval) \<Rightarrow> jsval list \<Rightarrow> jsval list" where
  "flatMap f xs = concat (map (\<lambda>x. flatten1 (f x)) xs)"

text \<open>\<^verbatim>\<open>xs.filter(p)\<close> where the callback may throw.\<close>

fun filterE :: "('a \<Rightarrow> bool result) \<Rightarrow> 'a list \<Rightarrow> 'a list result" where
  "filterE p [] = Inr []"
| "filterE p (x # xs) =
     thenE (p x) (\<lambda>keep.
     thenE (filterE p xs) (\<lambda>rest. Inr (if keep then x # rest else rest)))"

text \<open>
  The callback of \<^verbatim>\<open>filter\<close>, lines 312 to 314. \<^verbatim>\<open>&&\<close> and \<^verbatim>\<open>||\<close> evaluate their
  right operand only when the left one does not decide, so \<^verbatim>\<open>syncOptions\<close> is read only
  for an entry of type \<^verbatim>\<open>iframe\<close> or \<^verbatim>\<open>image\<close>.
\<close>

definition sync_allowed :: "jsval \<Rightarrow> jsval \<Rightarrow> bool result" where
  "sync_allowed syncOptions s =
     thenE (get_prop s ''type'') (\<lambda>type.
     thenE (if type = JStr ''iframe'' then get_prop syncOptions ''iframeEnabled''
            else Inr (JBool False)) (\<lambda>iframe.
     if truthy iframe then Inr True
     else
       thenE (if type = JStr ''image'' then get_prop syncOptions ''pixelEnabled''
              else Inr (JBool False)) (\<lambda>image.
       Inr (truthy image))))"

text \<open>The body of \<^verbatim>\<open>getUserSyncs\<close>'s \<^verbatim>\<open>try\<close>, lines 308 to 315.\<close>

definition getUserSyncs_body :: "jsval \<Rightarrow> jsval \<Rightarrow> jsval \<Rightarrow> jsval \<Rightarrow> jsval result" where
  "getUserSyncs_body syncOptions serverResponses gdprConsent uspConsent =
     (if nullish serverResponses then Inl (TypeError ''cannot read property flatMap'')
      else if \<not> array_method serverResponses ''flatMap''
      then Inl (TypeError ''flatMap is not a function'')
      else
        let userSyncs = flatMap userSyncs_of (elems serverResponses) in
        thenE (filterE (sync_allowed syncOptions) userSyncs) (\<lambda>kept.
        Inr (JArr kept [])))"

text \<open>\<^verbatim>\<open>spec.getUserSyncs\<close>, lines 300 to 320.\<close>

definition getUserSyncs ::
  "config \<Rightarrow> jsval \<Rightarrow> jsval \<Rightarrow> jsval \<Rightarrow> jsval \<Rightarrow> world \<Rightarrow> jsval result \<times> world" where
  "getUserSyncs cfg syncOptions serverResponses gdprConsent uspConsent w =
     try_catch (\<lambda>w'. (getUserSyncs_body syncOptions serverResponses gdprConsent uspConsent, w'))
       (\<lambda>err w'. (Inr JUndefined,
          logError ''Error while getting user syncs'' err
            (record_js cfg ''getUserSyncs/didError'' (Some [(''error'', err)]) w')))
       (record_js cfg ''getUserSyncs'' None w)"

text \<open>
  The result of \<^verbatim>\<open>getUserSyncs\<close> in the spec's words, to compare with the code: the
  entries of the flattened per-response \<^verbatim>\<open>ext.userSyncs\<close> lists (an absent list treated
  as empty) whose type is \<^verbatim>\<open>iframe\<close> when iframe syncing is enabled, or \<^verbatim>\<open>image\<close> when
  pixel syncing is enabled.
\<close>

definition wanted_userSyncs :: "jsval \<Rightarrow> jsval list \<Rightarrow> jsval list" where
  "wanted_userSyncs syncOptions responses =
     filter (\<lambda>s. (prop_of s ''type'' = JStr ''iframe'' \<and> truthy (prop_of syncOptions ''iframeEnabled''))
                \<or> (prop_of s ''type'' = JStr ''image'' \<and> truthy (prop_of syncOptions ''pixelEnabled'')))
       (concat (map (\<lambda>res. elems (opt_get (opt_get (opt_get res ''body'') ''ext'') ''userSyncs''))
                  responses))"

section \<open>Values for the examples\<close>

text \<open>
  A runtime and a world to evaluate the operations on. The runtime prints a natural
  number in decimal and reads no string as a number; with the three conversions
  defined below this covers the values the examples meet.
\<close>

function nat_to_string :: "nat \<Rightarrow> string" where
  "nat_to_string n =
     (if n < 10 then [char_of (48 + n)]
      else nat_to_string (n div 10) @ [char_of (48 + n mod 10)])"
  by pat_completeness auto
termination
  by (relation "measure id") auto

definition example_NumberToString :: "jsnum \<Rightarrow> string" where
  "example_NumberToString n =
     (case n of
        NaN \<Rightarrow> ''NaN''
      | PosInf \<Rightarrow> ''Infinity''
      | NegInf \<Rightarrow> ''-Infinity''
      | Fin q \<Rightarrow> (if 0 \<le> q \<and> q = of_int \<lfloor>q\<rfloor> then nat_to_string (nat \<lfloor>q\<rfloor>) else ''?''))"

text \<open>
  \<^verbatim>\<open>JSON.stringify\<close> for the values the examples serialize: strings without
  characters to escape, numbers, booleans, \<^verbatim>\<open>null\<close>, and the arrays and objects made
  of them. \<^verbatim>\<open>undefined\<close> has no JSON text: an object leaves out a key that holds it, an
  array prints \<^verbatim>\<open>null\<close> in its place.
\<close>

fun join_with :: "string \<Rightarrow> string list \<Rightarrow> string" where
  "join_with sep [] = []"
| "join_with sep [x] = x"
| "join_with sep (x # y # ys) = x @ sep @ join_with sep (y # ys)"

fun example_JSON_text :: "jsval \<Rightarrow> string option" where
  "example_JSON_text JUndefined = None"
| "example_JSON_text JNull = Some ''null''"
| "example_JSON_text (JBool b) = Some (if b then ''true'' else ''false'')"
| "example_JSON_text (JNum n) =
     Some (case n of Fin q \<Rightarrow> example_NumberToString n | _ \<Rightarrow> ''null'')"
| "example_JSON_text (JStr s) = Some ([CHR 0x22] @ s @ [CHR 0x22])"
| "example_JSON_text (JArr xs ps) =
     Some (''['' @ join_with '',''
             (map (\<lambda>x. case example_JSON_text x of None \<Rightarrow> ''null'' | Some t \<Rightarrow> t) xs)
           @ '']'')"
| "example_JSON_text (JObj ps) =
     Some (''{'' @ join_with '',''
             (concat (map (\<lambda>(k, v). case example_JSON_text v of
                                        None \<Rightarrow> []
                                      | Some t \<Rightarrow> [[CHR 0x22] @ k @ [CHR 0x22] @ '':'' @ t]) ps))
           @ ''}'')"

definition example_JSON_stringify :: "jsval \<Rightarrow> jsval" where
  "example_JSON_stringify v =
     (case example_JSON_text v of None \<Rightarrow> JUndefined | Some t \<Rightarrow> JStr t)"

text \<open>\<^verbatim>\<open>btoa\<close>: the base64 text of a string of bytes.\<close>

definition base64_digit :: "nat \<Rightarrow> char" where
  "base64_digit n =
     ''ABCDEFGHIJKLMNOPQRSTUVWXYZabcdefghijklmnopqrstuvwxyz0123456789+/'' ! n"

fun base64 :: "nat list \<Rightarrow> string" where
  "base64 [] = []"
| "base64 [a] = [base64_digit (a div 4), base64_digit ((a mod 4) * 16), CHR ''='', CHR ''='']"
| "base64 [a, b] =
     [base64_digit (a div 4), base64_digit ((a mod 4) * 16 + b div 16),
      base64_digit ((b mod 16) * 4), CHR ''='']"
| "base64 (a # b # c # rest) =
     [base64_digit (a div 4), base64_digit ((a mod 4) * 16 + b div 16),
      base64_digit ((b mod 16) * 4 + c div 64), base64_digit (c mod 64)] @ base64 rest"

text \<open>
  The string form of a plain object, \<^verbatim>\<open>[object Object]\<close>; an object with a
  \<^verbatim>\<open>toString\<close> property of its own (in JSON data never a function) has none, and the
  conversion throws a TypeError. The examples convert no array.
\<close>

definition example_ObjectToString :: "jsval \<Rightarrow> string result" where
  "example_ObjectToString v =
     (if has_own v ''toString'' then Inl (TypeError ''Cannot convert object to primitive value'')
      else Inr ''[object Object]'')"

definition example_runtime :: runtime where
  "example_runtime =
     \<lparr>NumberToString = example_NumberToString,
      ObjectToString = example_ObjectToString,
      StringToNumber = (\<lambda>s. NaN),
      JSON_stringify = example_JSON_stringify,
      btoa = (\<lambda>s. Inr (base64 (map of_char s)))\<rparr>"

definition empty_world :: world where
  "empty_world = \<lparr>aps = None, console = []\<rparr>"

definition example_request :: jsval where
  "example_request =
     JObj [(''device'', JObj [(''ua'', JStr ''Mozilla''),
                              (''geo'', JObj [(''lat'', JNum (Fin 47)), (''country'', JStr ''USA''),
                                              (''lon'', JNum (Fin (-122)))])]),
           (''user'', JObj [(''gender'', JStr ''F''), (''id'', JStr ''u1''), (''yob'', JNum (Fin 1990)),
                            (''keywords'', JStr ''a,b''), (''kwarry'', JArr [] []),
                            (''customdata'', JStr ''x''), (''geo'', JObj []), (''data'', JArr [] []),
                            (''buyeruid'', JStr ''b1'')]),
           (''imp'', JArr [JObj [(''id'', JStr ''1''),
                                 (''banner'', JObj [(''format'', JArr [JObj [(''w'', JNum (Fin 300)), (''h'', JNum (Fin 250))],
                                                                     JObj [(''w'', JNum (Fin 728)), (''h'', JNum (Fin 90))]] [])])]] [])]"

definition example_config :: config where
  "example_config = (\<lambda>key. if key = ''aps.accountID'' then JStr ''acct-1'' else JUndefined)"


definition bare_banner_request :: jsval where
  "bare_banner_request =
     JObj [(''imp'', JArr [JObj [(''id'', JStr ''1''), (''banner'', JObj [])]] [])]"


definition example_built :: jsval where
  "example_built =
     JObj [(''device'', JObj [(''ua'', JStr ''Mozilla''), (''geo'', JObj [(''country'', JStr ''USA'')])]),
           (''user'', JObj [(''id'', JStr ''u1''), (''buyeruid'', JStr ''b1'')]),
           (''imp'', JArr [JObj [(''id'', JStr ''1''),
                                 (''banner'', JObj [(''format'', JArr [JObj [(''w'', JNum (Fin 300)), (''h'', JNum (Fin 250))],
                                                                     JObj [(''w'', JNum (Fin 728)), (''h'', JNum (Fin 90))]] []),
                                                    (''w'', JNum (Fin 300)), (''h'', JNum (Fin 250))])]] []),
           (''ext'', JObj [(''account'', JStr ''acct-1'')]),
           (''cur'', JArr [JStr ''USD''] [])]"

definition bare_banner_built :: jsval where
  "bare_banner_built =
     JObj [(''imp'', JArr [JObj [(''id'', JStr ''1''), (''banner'', JObj [])]] []),
           (''ext'', JObj [(''account'', JStr ''acct-1'')]),
           (''cur'', JArr [JStr ''USD''] [])]"


definition invalid_format_request :: jsval where
  "invalid_format_request =
     JObj [(''imp'', JArr [JObj [(''id'', JStr ''1''),
                                 (''banner'', JObj [(''format'',
                                    JArr [JObj [(''w'', JStr ''300''), (''h'', JNum (Fin 250))]] [])])]] [])]"

definition sized_request :: jsval where
  "sized_request =
     JObj [(''imp'', JArr [JObj [(''id'', JStr ''1''),
                                 (''banner'', JObj [(''w'', JNum (Fin 320)), (''h'', JNum (Fin 50)),
                                                    (''format'', JArr [JObj [(''w'', JNum (Fin 300)),
                                                                             (''h'', JNum (Fin 250))]] [])])],
                           JObj [(''id'', JStr ''2''), (''video'', JObj [])]] [])]"

definition sized_built :: jsval where
  "sized_built =
     JObj [(''imp'', JArr [JObj [(''id'', JStr ''1''),
                                 (''banner'', JObj [(''w'', JNum (Fin 320)), (''h'', JNum (Fin 50)),
                                                    (''format'', JArr [JObj [(''w'', JNum (Fin 300)),
                                                                             (''h'', JNum (Fin 250))]] [])])],
                           JObj [(''id'', JStr ''2''), (''video'', JObj [])]] []),
           (''ext'', JObj [(''account'', JStr ''acct-1'')]),
           (''cur'', JArr [JStr ''USD''] [])]"

text \<open>
  A bid-response builder for the examples: the media type is the one the context
  names, and follows \<^verbatim>\<open>mtype\<close> when the context names none.
\<close>

definition example_buildBidResponse :: "jsval \<Rightarrow> jsval \<Rightarrow> jsval result" where
  "example_buildBidResponse bid ctx =
     Inr (JObj [(''requestId'', prop_of bid ''impid''),
                (''cpm'', prop_of bid ''price''),
                (''seatBidId'', prop_of bid ''id''),
                (''mediaType'',
                   if truthy (opt_get ctx ''mediaType'') then opt_get ctx ''mediaType''
                   else if prop_of bid ''mtype'' = JNum (Fin 2) then JStr VIDEO
                   else JStr BANNER)])"

definition example_video_bid :: jsval where
  "example_video_bid =
     JObj [(''id'', JStr ''b-2''), (''impid'', JStr ''2''), (''price'', JNum (Fin 3)),
           (''mtype'', JNum (Fin 2)), (''adm'', JStr ''<VAST></VAST>'')]"

definition example_banner_bid :: jsval where
  "example_banner_bid =
     JObj [(''id'', JStr ''b-1''), (''impid'', JStr ''1''), (''price'', JNum (Fin 1)),
           (''mtype'', JNum (Fin 1)), (''adm'', JStr ''<div></div>'')]"

text \<open>
  A converter library for the examples: no impressions of its own, the example
  request as the generic request, and a conversion that walks the wire bids
  \<^verbatim>\<open>seatbid[i].bid[j]\<close> of the response in order. It hands each of them to the hook
  with its bid-response builder and an empty context, skips a bid whose conversion
  throws, and answers with the bid responses of the others. The wire bids are the
  objects of the response, so the response holds them as the hook left them.
\<close>

fun example_bids ::
  "(jsval \<Rightarrow> jsval \<times> jsval result) \<Rightarrow> jsval list \<Rightarrow> jsval list \<times> jsval list" where
  "example_bids hook [] = ([], [])"
| "example_bids hook (bid # bids) =
     (case hook bid of (bid1, outcome) \<Rightarrow>
      case example_bids hook bids of (bids1, bidResponses) \<Rightarrow>
        (bid1 # bids1,
         (case outcome of Inl err \<Rightarrow> bidResponses | Inr r \<Rightarrow> r # bidResponses)))"

fun example_seatbids ::
  "(jsval \<Rightarrow> jsval \<times> jsval result) \<Rightarrow> jsval list \<Rightarrow> jsval list \<times> jsval list" where
  "example_seatbids hook [] = ([], [])"
| "example_seatbids hook (seatbid # seatbids) =
     (case example_bids hook (elems (opt_get seatbid ''bid'')) of (bids1, bidResponses) \<Rightarrow>
      case example_seatbids hook seatbids of (seatbids1, others) \<Rightarrow>
        ((if isArray (opt_get seatbid ''bid'')
          then update_in seatbid ''bid'' (\<lambda>a. set_elems a bids1) else seatbid) # seatbids1,
         bidResponses @ others))"

definition example_fromORTB ::
  "((jsval \<Rightarrow> jsval \<Rightarrow> jsval result) \<Rightarrow> jsval \<Rightarrow> jsval \<Rightarrow> jsval \<times> jsval result)
     \<Rightarrow> jsval \<Rightarrow> jsval \<Rightarrow> (jsval \<times> jsval) result" where
  "example_fromORTB hook response request =
     (case example_seatbids (\<lambda>bid. hook example_buildBidResponse bid JNull)
             (elems (opt_get response ''seatbid'')) of
        (seatbids1, bidResponses) \<Rightarrow>
          Inr (if isArray (opt_get response ''seatbid'')
               then update_in response ''seatbid'' (\<lambda>a. set_elems a seatbids1) else response,
               JObj [(''bids'', JArr bidResponses [])]))"

definition example_library :: ortb_library where
  "example_library =
     \<lparr>lib_imps = (\<lambda>bidRequests bidderRequest. Inr (JArr [] [], JNull)),
      lib_buildRequest = (\<lambda>imps bidderRequest ctx. Inr example_request),
      lib_fromORTB = example_fromORTB\<rparr>"

text \<open>
  A response with a banner bid and a video bid, the JSON text of its body as it
  arrives and as the conversion leaves it, and \<^verbatim>\<open>btoa\<close> of the two texts.
\<close>

definition example_response :: jsval where
  "example_response =
     JObj [(''body'', JObj [(''seatbid'',
              JArr [JObj [(''bid'', JArr [example_banner_bid, example_video_bid] [])]] [])]),
           (''status'', JNum (Fin 200))]"

definition example_raw_json :: string where
  \<open>example_raw_json =
     ''{"seatbid":[{"bid":[{"id":"b-1","impid":"1","price":1,"mtype":1,"adm":"<div></div>"},''
     @ ''{"id":"b-2","impid":"2","price":3,"mtype":2,"adm":"<VAST></VAST>"}]}]}''\<close>

definition example_converted_json :: string where
  \<open>example_converted_json =
     ''{"seatbid":[{"bid":[{"id":"b-1","impid":"1","price":1,"mtype":1,"adm":"<div></div>"},''
     @ ''{"id":"b-2","impid":"2","price":3,"mtype":2}]}]}''\<close>

definition example_raw_payload :: string where
  "example_raw_payload =
     ''eyJzZWF0YmlkIjpbeyJiaWQiOlt7ImlkIjoiYi0xIiwiaW1waWQiOiIxIiwicHJpY2UiOjEsIm10eXBlIjox''
     @ ''LCJhZG0iOiI8ZGl2PjwvZGl2PiJ9LHsiaWQiOiJiLTIiLCJpbXBpZCI6IjIiLCJwcmljZSI6MywibXR5cGUi''
     @ ''OjIsImFkbSI6IjxWQVNUPjwvVkFTVD4ifV19XX0=''"

definition example_converted_payload :: string where
  "example_converted_payload =
     ''eyJzZWF0YmlkIjpbeyJiaWQiOlt7ImlkIjoiYi0xIiwiaW1waWQiOiIxIiwicHJpY2UiOjEsIm10eXBlIjox''
     @ ''LCJhZG0iOiI8ZGl2PjwvZGl2PiJ9LHsiaWQiOiJiLTIiLCJpbXBpZCI6IjIiLCJwcmljZSI6MywibXR5cGUi''
     @ ''OjJ9XX1dfQ==''"

definition example_server_request :: jsval where
  "example_server_request = JObj [(''method'', JStr ''POST''), (''data'', example_built)]"

definition example_interpreted :: jsval where
  "example_interpreted =
     JArr [JObj [(''requestId'', JStr ''1''), (''cpm'', JNum (Fin 1)),
                 (''seatBidId'', JStr ''b-1''), (''mediaType'', JStr BANNER),
                 (''ad'', JStr (creative_markup DEFAULT_PREBID_CREATIVE_JS_URL ''acct-1''
                                  example_converted_payload ([CHR 0x22] @ ''b-1'' @ [CHR 0x22])))],
           JObj [(''requestId'', JStr ''2''), (''cpm'', JNum (Fin 3)),
                 (''seatBidId'', JStr ''b-2''), (''mediaType'', JStr VIDEO),
                 (''vastUrl'', JStr ''<VAST></VAST>'')]] []"

definition unprintable_account_config :: config where
  "unprintable_account_config =
     (\<lambda>key. if key = ''aps.accountID'' then JObj [(''toString'', JNum (Fin 1))] else JUndefined)"

definition example_serverResponses :: jsval where
  "example_serverResponses =
     JArr [JObj [(''body'', JObj [(''ext'', JObj [(''userSyncs'',
                    JArr [JObj [(''type'', JStr ''iframe''), (''url'', JStr ''https://a.example/i'')],
                          JObj [(''type'', JStr ''image''), (''url'', JStr ''https://b.example/p'')]] [])])])],
           JObj [(''body'', JObj [])],
           JObj [(''body'', JObj [(''ext'', JObj [(''userSyncs'',
                    JArr [JObj [(''type'', JStr ''image''), (''url'', JStr ''https://c.example/p'')]] [])])])]] []"

definition iframe_only :: jsval where
  "iframe_only = JObj [(''iframeEnabled'', JBool True), (''pixelEnabled'', JBool False)]"

definition pixel_only :: jsval where
  "pixel_only = JObj [(''iframeEnabled'', JBool False), (''pixelEnabled'', JBool True)]"


section \<open>Properties of the value operations\<close>

lemma thenE_Inr_iff: "thenE m f = Inr r \<longleftrightarrow> (\<exists>x. m = Inr x \<and> f x = Inr r)"
  by (cases m) (simp_all add: thenE_def)

lemma opt_get_prop_of: "opt_get v k = prop_of v k"
  by (cases v) (simp_all add: opt_get_def)

lemma set_prop_eq:
  "set_prop v k x = (if objlike v then Inr (update_in v k (\<lambda>old. x)) else Inl (TypeError (''cannot set property '' @ k)))"
  by (cases v) simp_all

lemma objlike_update_in [simp]: "objlike (update_in v k f) = objlike v"
  by (cases v) simp_all

lemma lookup_update: "lookup (AList.update k x ps) k' = (if k' = k then x else lookup ps k')"
  by (simp add: lookup_def update_conv')

lemma lookup_delete: "lookup (AList.delete k ps) k' = (if k' = k then JUndefined else lookup ps k')"
  by (simp add: lookup_def delete_conv')

lemma prop_of_update_in:
  "k' \<noteq> ''length'' \<Longrightarrow>
     prop_of (update_in v k f) k' = (if k' = k \<and> objlike v then f (prop_of v k) else prop_of v k')"
  by (cases v) (auto simp add: lookup_update)

lemma has_own_delete_own: "has_own (delete_own k v) k' \<longleftrightarrow> k' \<noteq> k \<and> has_own v k'"
  by (cases v) (auto simp add: has_own_def AList.delete_eq)

lemma has_own_primitive: "\<not> objlike v \<Longrightarrow> \<not> has_own v k"
  by (cases v) (simp_all add: has_own_def)

lemma falsy_not_objlike: "\<not> truthy v \<Longrightarrow> \<not> objlike v"
  by (cases v) simp_all

lemma trim_nonempty_iff: "trim s \<noteq> [] \<longleftrightarrow> (\<exists>c \<in> set s. \<not> is_whitespace c)"
proof -
  have "dropWhile is_whitespace (rev (dropWhile is_whitespace s)) \<noteq> []
        \<longleftrightarrow> (\<exists>c \<in> set (dropWhile is_whitespace s). \<not> is_whitespace c)"
    by (simp add: dropWhile_eq_Nil_conv)
  also have "\<dots> \<longleftrightarrow> dropWhile is_whitespace s \<noteq> []"
    by (metis dropWhile_eq_Nil_conv dropWhile_idem)
  also have "\<dots> \<longleftrightarrow> (\<exists>c \<in> set s. \<not> is_whitespace c)"
    by (simp add: dropWhile_eq_Nil_conv)
  finally show ?thesis by (simp add: trim_def)
qed


section \<open>Properties of the request hook\<close>

lemma truthy_prop_of_objlike: "truthy (prop_of v k) \<Longrightarrow> k \<noteq> ''length'' \<Longrightarrow> objlike v"
  by (cases v) simp_all

lemma prop_of_privacy_geo:
  "\<not> has_own (prop_of (prop_of (if truthy (opt_get (opt_get request ''device'') ''geo'')
             then update_in request ''device'' (\<lambda>device.
                    update_in device ''geo'' (\<lambda>geo.
                      delete_own ''lon'' (delete_own ''lat'' geo)))
             else request) ''device'') ''geo'') k" if "k = ''lat'' \<or> k = ''lon''"
proof (cases "truthy (prop_of (prop_of request ''device'') ''geo'')")
  case True
  have "objlike (prop_of request ''device'')"
    using True by (rule truthy_prop_of_objlike) simp
  moreover have "objlike request"
    using calculation by (cases request) simp_all
  ultimately show ?thesis using True that
    by (auto simp add: opt_get_prop_of prop_of_update_in has_own_delete_own)
next
  case False
  then show ?thesis
    using has_own_primitive falsy_not_objlike by (simp add: opt_get_prop_of)
qed

lemma privacy_edits_InrD:
  assumes "privacy_edits request = Inr r"
  shows "\<not> has_own (prop_of (prop_of r ''device'') ''geo'') ''lat''"
    and "\<not> has_own (prop_of (prop_of r ''device'') ''geo'') ''lon''"
    and "k \<in> {''gender'', ''yob'', ''keywords'', ''kwarry'', ''customdata'', ''geo'', ''data''}
          \<Longrightarrow> \<not> has_own (prop_of r ''user'') k"
proof -
  define r1 where "r1 = (if truthy (opt_get (opt_get request ''device'') ''geo'')
             then update_in request ''device'' (\<lambda>device.
                    update_in device ''geo'' (\<lambda>geo.
                      delete_own ''lon'' (delete_own ''lat'' geo)))
             else request)"
  define strip where "strip = (\<lambda>u. delete_own ''data'' (delete_own ''geo'' (delete_own ''customdata''
                    (delete_own ''kwarry'' (delete_own ''keywords''
                      (delete_own ''yob'' (delete_own ''gender'' u)))))))"
  have r: "r = (if truthy (prop_of r1 ''user'') then update_in r1 ''user'' strip else r1)"
    using assms unfolding privacy_edits_def r1_def [symmetric] strip_def [symmetric]
    by (auto simp add: Let_def thenE_Inr_iff get_prop_def split: if_splits)
  have dev: "prop_of r ''device'' = prop_of r1 ''device''"
    by (simp add: r prop_of_update_in)
  show "\<not> has_own (prop_of (prop_of r ''device'') ''geo'') ''lat''"
    unfolding dev r1_def by (rule prop_of_privacy_geo) simp
  show "\<not> has_own (prop_of (prop_of r ''device'') ''geo'') ''lon''"
    unfolding dev r1_def by (rule prop_of_privacy_geo) simp
  show "\<not> has_own (prop_of r ''user'') k"
    if "k \<in> {''gender'', ''yob'', ''keywords'', ''kwarry'', ''customdata'', ''geo'', ''data''}"
  proof (cases "truthy (prop_of r1 ''user'')")
    case True
    then have "objlike r1" by (rule truthy_prop_of_objlike) simp
    then have "prop_of r ''user'' = strip (prop_of r1 ''user'')"
      using True by (simp add: r prop_of_update_in)
    then show ?thesis using that
      by (auto simp add: strip_def has_own_delete_own)
  next
    case False
    then show ?thesis using has_own_primitive falsy_not_objlike by (simp add: r)
  qed
qed

lemma account_and_currency_InrD:
  assumes "account_and_currency cfg r = Inr r'"
  shows "objlike r" and "objlike r'"
    and "k \<noteq> ''ext'' \<Longrightarrow> k \<noteq> ''cur'' \<Longrightarrow> k \<noteq> ''length'' \<Longrightarrow> prop_of r' k = prop_of r k"
  using assms
  by (auto simp add: account_and_currency_def thenE_Inr_iff set_prop_eq Let_def prop_of_update_in
      split: if_splits)

lemma check_impressions_InrD:
  assumes "check_impressions rt r = Inr r'"
  shows "k \<noteq> ''imp'' \<Longrightarrow> k \<noteq> ''length'' \<Longrightarrow> prop_of r' k = prop_of r k"
  using assms
  by (auto simp add: check_impressions_def thenE_Inr_iff Let_def prop_of_update_in
      split: if_splits)


lemma forEachE_Inr_iff:
  "forEachE f n xs = Inr ys \<longleftrightarrow>
     length ys = length xs \<and> (\<forall>i < length xs. f (n + i) (xs ! i) = Inr (ys ! i))"
proof (induction xs arbitrary: n ys)
  case Nil
  then show ?case by auto
next
  case (Cons x xs)
  show ?case
  proof (cases ys)
    case Nil
    then show ?thesis by (auto simp add: thenE_Inr_iff)
  next
    case (Cons y ys')
    have "(\<forall>i < Suc (length xs). f (n + i) ((x # xs) ! i) = Inr ((y # ys') ! i))
          \<longleftrightarrow> f n x = Inr y \<and> (\<forall>i < length xs. f (Suc n + i) (xs ! i) = Inr (ys' ! i))"
      by (auto simp add: less_Suc_eq_0_disj)
    then show ?thesis
      using Cons.IH [of "Suc n" ys'] Cons by (auto simp add: thenE_Inr_iff)
  qed
qed

lemma privacy_edits_other:
  assumes "privacy_edits r = Inr r'"
  shows "k \<noteq> ''device'' \<Longrightarrow> k \<noteq> ''user'' \<Longrightarrow> k \<noteq> ''length'' \<Longrightarrow> prop_of r' k = prop_of r k"
  using assms
  by (auto simp add: privacy_edits_def thenE_Inr_iff Let_def prop_of_update_in get_prop_def
      split: if_splits)

lemma elems_set_elems: "isArray a \<Longrightarrow> elems (set_elems a ys) = ys"
  by (cases a) simp_all

lemma check_impressions_imp:
  assumes "check_impressions rt r = Inr r'" and "objlike r"
  shows "forEachE (request_imp rt) 0 (elems (prop_of r ''imp'')) = Inr (elems (prop_of r' ''imp''))"
  using assms
  by (auto simp add: check_impressions_def thenE_Inr_iff Let_def prop_of_update_in elems_set_elems
      split: if_splits)

lemma converter_request_imps:
  assumes "converter_request rt cfg buildRequest imps bidderRequest ctx = Inr result"
    and "buildRequest imps bidderRequest ctx = Inr request"
  shows "forEachE (request_imp rt) 0 (elems (prop_of request ''imp''))
           = Inr (elems (prop_of result ''imp''))"
proof -
  from assms obtain r1 r2 where
    1: "privacy_edits request = Inr r1" and 2: "account_and_currency cfg r1 = Inr r2"
    and 3: "check_impressions rt r2 = Inr result"
    by (auto simp add: converter_request_def thenE_Inr_iff)
  have "prop_of r2 ''imp'' = prop_of request ''imp''"
    using account_and_currency_InrD(3) [OF 2] privacy_edits_other [OF 1] by simp
  then show ?thesis
    using check_impressions_imp [OF 3 account_and_currency_InrD(2) [OF 2]] by simp
qed

lemma ge_zero_undefined [simp]: "ge_zero rt JUndefined = Inr False"
  by (simp add: ge_zero_def thenE_def)

lemma doesHWExist_lacking:
  "prop_of banner ''w'' = JUndefined \<Longrightarrow> doesHWExist rt banner = Inr False"
  by (simp add: doesHWExist_def thenE_def)

lemma isArray_truthy: "isArray v \<Longrightarrow> truthy v"
  by (cases v) simp_all

lemma request_imp_no_banner:
  "truthy imp \<Longrightarrow> \<not> truthy (prop_of imp ''banner'') \<Longrightarrow> request_imp rt index imp = Inr imp"
  by (simp add: request_imp_def)

lemma request_imp_present:
  "truthy imp \<Longrightarrow> doesHWExist rt (prop_of imp ''banner'') = Inr True
     \<Longrightarrow> request_imp rt index imp = Inr imp"
  by (simp add: request_imp_def Let_def thenE_def)

lemma request_imp_no_format:
  "truthy imp \<Longrightarrow> doesHWExist rt (prop_of imp ''banner'') = Inr hw \<Longrightarrow>
     \<not> (isArray (prop_of (prop_of imp ''banner'') ''format'')
        \<and> length (elems (prop_of (prop_of imp ''banner'') ''format'')) > 0)
     \<Longrightarrow> request_imp rt index imp = Inr imp"
  by (auto simp add: request_imp_def Let_def thenE_def)

lemma format_banner_objlike:
  assumes "isArray (prop_of banner ''format'')"
  shows "objlike banner" and "truthy banner"
proof -
  show "objlike banner"
    using assms isArray_truthy truthy_prop_of_objlike [of banner "''format''"] by simp
  then show "truthy banner" by (cases banner) simp_all
qed

lemma request_imp_backfill:
  assumes "truthy imp"
    and "doesHWExist rt (prop_of imp ''banner'') = Inr False"
    and "isArray (prop_of (prop_of imp ''banner'') ''format'')"
    and "elems (prop_of (prop_of imp ''banner'') ''format'') = entry # rest"
    and "is_number (prop_of entry ''w'')" and "is_number (prop_of entry ''h'')"
  shows "request_imp rt index imp =
           Inr (update_in imp ''banner'' (\<lambda>b.
                  update_in (update_in (prop_of imp ''banner'') ''w'' (\<lambda>old. prop_of entry ''w''))
                    ''h'' (\<lambda>old. prop_of entry ''h'')))"
proof -
  have e: "\<not> nullish entry" using assms(5) by (cases entry) simp_all
  show ?thesis
    using assms e format_banner_objlike [OF assms(3)]
    by (simp add: request_imp_def Let_def set_prop_eq thenE_def)
qed

lemma request_imp_backfill_props:
  assumes "truthy imp"
    and "doesHWExist rt (prop_of imp ''banner'') = Inr False"
    and "isArray (prop_of (prop_of imp ''banner'') ''format'')"
    and "elems (prop_of (prop_of imp ''banner'') ''format'') = entry # rest"
    and "is_number (prop_of entry ''w'')" and "is_number (prop_of entry ''h'')"
    and "request_imp rt index imp = Inr imp'"
  shows "prop_of (prop_of imp' ''banner'') ''w'' = prop_of entry ''w''"
    and "prop_of (prop_of imp' ''banner'') ''h'' = prop_of entry ''h''"
proof -
  note b = format_banner_objlike [OF assms(3)]
  from b(2) have i: "objlike imp" by (rule truthy_prop_of_objlike) simp
  have "imp' = update_in imp ''banner'' (\<lambda>b.
                  update_in (update_in (prop_of imp ''banner'') ''w'' (\<lambda>old. prop_of entry ''w''))
                    ''h'' (\<lambda>old. prop_of entry ''h''))"
    using request_imp_backfill [OF assms(1-6), of index] assms(7) by simp
  then show "prop_of (prop_of imp' ''banner'') ''w'' = prop_of entry ''w''"
    and "prop_of (prop_of imp' ''banner'') ''h'' = prop_of entry ''h''"
    using b(1) i by (simp_all add: prop_of_update_in)
qed

lemma request_imp_invalid:
  assumes "truthy imp"
    and "doesHWExist rt (prop_of imp ''banner'') = Inr False"
    and "isArray (prop_of (prop_of imp ''banner'') ''format'')"
    and "elems (prop_of (prop_of imp ''banner'') ''format'') = entry # rest"
    and "\<not> (is_number (prop_of entry ''w'') \<and> is_number (prop_of entry ''h''))"
  shows "request_imp rt index imp =
           (if nullish entry then Inl (TypeError ''cannot destructure format[0]'')
            else thenE (ToString rt (prop_of entry ''w'')) (\<lambda>w_text.
                 thenE (ToString rt (prop_of entry ''h'')) (\<lambda>h_text.
                 Inl (mk_Error (''Invalid banner format dimensions at impression ''
                                @ NumberToString rt (Fin (of_nat index))
                                @ '': w='' @ w_text @ '', h='' @ h_text)))))"
  using assms format_banner_objlike [OF assms(3)]
  by (auto simp add: request_imp_def Let_def thenE_def)

lemma request_imp_invalid_isl:
  assumes "truthy imp"
    and "doesHWExist rt (prop_of imp ''banner'') = Inr False"
    and "isArray (prop_of (prop_of imp ''banner'') ''format'')"
    and "elems (prop_of (prop_of imp ''banner'') ''format'') = entry # rest"
    and "\<not> (is_number (prop_of entry ''w'') \<and> is_number (prop_of entry ''h''))"
  shows "isl (request_imp rt index imp)"
  unfolding request_imp_invalid [OF assms]
  by (auto simp add: thenE_def split: sum.splits)

section \<open>Properties of the recorder and the validation gate\<close>

lemma didError_names:
  "finalEventName ''isBidRequestValid/didError'' = ''prebidAdapter/isBidRequestValid/didError''"
  "finalEventName ''buildRequests/didError'' = ''prebidAdapter/buildRequests/didError''"
  "finalEventName ''interpretResponse/didError'' = ''prebidAdapter/interpretResponse/didError''"
  "finalEventName ''getUserSyncs/didError'' = ''prebidAdapter/getUserSyncs/didError''"
  by code_simp+

lemma map_of_map_entry_if:
  "map_of (AList.map_entry k f m) k' = (if k' = k then map_option f (map_of m k) else map_of m k')"
  by (induction m) auto

lemma isValidAccountID_iff:
  "isValidAccountID accountID \<longleftrightarrow>
     (\<exists>n. accountID = JNum n) \<or>
     (\<exists>s. accountID = JStr s \<and> (\<exists>c \<in> set s. \<not> is_whitespace c))"
  by (cases accountID) (simp_all add: isValidAccountID_def trim_nonempty_iff)

lemma isBidRequestValid_valid:
  "isValidAccountID (readConfig cfg ''aps.accountID'')
     \<Longrightarrow> isBidRequestValid rt cfg bid w = (Inr (JBool True), record_js cfg ''isBidRequestValid'' None w)"
  by (simp add: isBidRequestValid_def isBidRequestValid_body_def try_catch_def)

lemma isBidRequestValid_invalid:
  "\<not> isValidAccountID (readConfig cfg ''aps.accountID'')
     \<Longrightarrow> ToString rt (readConfig cfg ''aps.accountID'') = Inr text
     \<Longrightarrow> isBidRequestValid rt cfg bid w
          = (Inr (JBool False),
             logWarn (''Invalid accountID: '' @ text) (record_js cfg ''isBidRequestValid'' None w))"
  by (simp add: isBidRequestValid_def isBidRequestValid_body_def try_catch_def)

lemma isBidRequestValid_throws:
  "\<not> isValidAccountID (readConfig cfg ''aps.accountID'')
     \<Longrightarrow> ToString rt (readConfig cfg ''aps.accountID'') = Inl err
     \<Longrightarrow> isBidRequestValid rt cfg bid w
          = (Inr JUndefined,
             logError ''Error while validating bid request'' err
               (record_js cfg ''isBidRequestValid/didError'' (Some [(''error'', err)])
                  (record_js cfg ''isBidRequestValid'' None w)))"
  by (simp add: isBidRequestValid_def isBidRequestValid_body_def try_catch_def)

lemma ToString_primitive: "\<not> objlike v \<Longrightarrow> \<exists>text. ToString rt v = Inr text"
  by (cases v) simp_all


lemma record_js_console [simp]: "console (record_js cfg eventName data w) = console w"
  by (simp add: record_js_def Let_def)

lemma last_event_logError [simp]: "last_event (logError msg err w) accountID = last_event w accountID"
  by (simp add: last_event_def logError_def)

lemma last_console_logError [simp]: "last (console (logError msg err w)) = Err msg err"
  by (simp add: logError_def)

lemma record_js_last_event:
  assumes "readConfig cfg ''aps.telemetry'' \<noteq> JBool False"
    and "truthy (readConfig cfg ''aps.accountID'')"
  shows "\<exists>event. last_event (record_js cfg eventName (Some [(''error'', err)]) w)
                   (readConfig cfg ''aps.accountID'') = Some event
           \<and> ev_type event = finalEventName eventName
           \<and> lookup (detail event) ''error'' = err
           \<and> lookup (detail event) ''source'' = JStr ''prebid-adapter''
           \<and> lookup (detail event) ''libraryVersion'' = JStr ADAPTER_VERSION"
proof -
  define m0 where "m0 = (case aps w of None \<Rightarrow> [] | Some m \<Rightarrow> m)"
  define acct where "acct = readConfig cfg ''aps.accountID''"
  define m1 where "m1 = (if \<not> Map_has m0 acct then Map_set m0 acct \<lparr>queue = [], store = []\<rparr> else m0)"
  have "map_of m1 acct \<noteq> None"
    by (auto simp add: m1_def Map_has_def Map_set_def update_conv')
  then obtain a0 where a0: "map_of m1 acct = Some a0" by blast
  show ?thesis
    using assms a0
    unfolding record_js_def Let_def last_event_def m0_def [symmetric] acct_def [symmetric]
      m1_def [symmetric]
    by (auto simp add: map_of_map_entry_if lookup_update lookup_def)
qed

lemma try_catch_returns:
  assumes "\<And>err w'. \<exists>v. fst (handler err w') = Inr v"
  shows "\<exists>v. fst (try_catch body handler w) = Inr v"
proof (cases "body w")
  case (Pair r w')
  then show ?thesis using assms by (cases r) (simp_all add: try_catch_def)
qed


section \<open>Properties of the response hook and the interpreter\<close>

lemma VIDEO_truthy: "truthy (JStr VIDEO)"
  by (simp add: VIDEO_def)

lemma prop_of_not_undefined_objlike:
  "prop_of v k \<noteq> JUndefined \<Longrightarrow> k \<noteq> ''length'' \<Longrightarrow> objlike v"
  by (cases v) simp_all

lemma objlike_not_nullish: "objlike v \<Longrightarrow> \<not> nullish v"
  by (cases v) simp_all

lemma objlike_delete_own [simp]: "objlike (delete_own k v) = objlike v"
  by (cases v) simp_all

lemma bidResponse_in_place_returns:
  assumes "converter_bidResponse buildBidResponse bid context = Inr (bid1, bidResponse)"
  shows "bidResponse_in_place buildBidResponse bid context = (bid1, Inr bidResponse)"
proof -
  from assms have "\<not> nullish bid"
    by (auto simp add: converter_bidResponse_def thenE_def get_prop_def split: if_splits)
  with assms have "bid1 = (if prop_of bid ''mtype'' = JNum (Fin 2) then delete_own ''adm'' bid else bid)"
    by (auto simp add: converter_bidResponse_def thenE_Inr_iff get_prop_def Let_def
        split: if_splits)
  with assms show ?thesis by (simp add: bidResponse_in_place_def thenE_def)
qed

lemma bidResponse_in_place_throws:
  "converter_bidResponse buildBidResponse bid context = Inl err
     \<Longrightarrow> snd (bidResponse_in_place buildBidResponse bid context) = Inl err"
  by (simp add: bidResponse_in_place_def thenE_def)

lemma trim_id:
  assumes "s \<noteq> []" and "\<not> is_whitespace (hd s)" and "\<not> is_whitespace (last s)"
  shows "trim s = s"
proof -
  have "dropWhile is_whitespace s = s"
    using assms(1,2) by (cases s) simp_all
  moreover have "dropWhile is_whitespace (rev s) = rev s"
    using assms(1,3) by (cases "rev s") (simp_all add: hd_rev [symmetric])
  ultimately show ?thesis by (simp add: trim_def)
qed

lemma trim_creative_markup:
  "trim (creative_markup creativeUrl accountID aaxResponse seatBidId)
     = creative_markup creativeUrl accountID aaxResponse seatBidId"
  by (rule trim_id) (simp_all add: creative_markup_def is_whitespace_def)

lemma interpret_bid_Inr:
  assumes "interpret_bid rt accountID creativeUrl body index bid = Inr bid'"
    and "prop_of bid' ''mediaType'' \<noteq> JStr VIDEO"
  shows "\<exists>creativeUrl_text accountID_text body_json aaxResponse seatBidId_json.
           ToString rt creativeUrl = Inr creativeUrl_text
         \<and> ToString rt accountID = Inr accountID_text
         \<and> ToString rt (JSON_stringify rt body) = Inr body_json
         \<and> btoa rt body_json = Inr aaxResponse
         \<and> ToString rt (JSON_stringify rt (prop_of bid' ''seatBidId'')) = Inr seatBidId_json
         \<and> prop_of bid' ''ad''
             = JStr (creative_markup creativeUrl_text accountID_text aaxResponse seatBidId_json)"
proof (cases "prop_of bid ''mediaType'' = JStr VIDEO")
  case True
  then have "bid' = bid"
    using assms(1) by (auto simp add: interpret_bid_def thenE_Inr_iff get_prop_def split: if_splits)
  then show ?thesis using True assms(2) by simp
next
  case False
  then obtain u a j p sb where
    t: "ToString rt creativeUrl = Inr u" "ToString rt accountID = Inr a"
      "ToString rt (JSON_stringify rt body) = Inr j" "btoa rt j = Inr p"
      "ToString rt (JSON_stringify rt (prop_of (delete_own ''ad'' bid) ''seatBidId'')) = Inr sb"
    and s: "set_prop (delete_own ''ad'' bid) ''ad'' (JStr (trim (creative_markup u a p sb))) = Inr bid'"
    using assms(1)
    by (auto simp add: interpret_bid_def thenE_Inr_iff get_prop_def Let_def split: if_splits)
  from s have o: "objlike bid"
    and b: "bid' = update_in (delete_own ''ad'' bid) ''ad'' (\<lambda>old. JStr (creative_markup u a p sb))"
    by (auto simp add: set_prop_eq trim_creative_markup split: if_splits)
  have "prop_of bid' ''seatBidId'' = prop_of (delete_own ''ad'' bid) ''seatBidId''"
    and "prop_of bid' ''ad'' = JStr (creative_markup u a p sb)"
    using o by (simp_all add: b prop_of_update_in)
  then show ?thesis using t by auto
qed

lemma interpretResponse_body_Inr:
  assumes "interpretResponse_body rt lib cfg response request = Inr bids"
  shows "\<exists>body1 interpretedResponse bids0.
           converter_fromORTB lib (prop_of response ''body'') (prop_of request ''data'')
             = Inr (body1, interpretedResponse)
         \<and> forEachE (interpret_bid rt (readConfig cfg ''aps.accountID'')
             (if truthy (readConfig cfg ''aps.creativeURL'') then readConfig cfg ''aps.creativeURL''
              else JStr DEFAULT_PREBID_CREATIVE_JS_URL)
             body1) 0 bids0 = Inr (elems bids)"
  using assms
  by (auto simp add: interpretResponse_body_def thenE_Inr_iff get_prop_def Let_def
      array_method_def elems_set_elems split: if_splits)

lemma interpretResponse_result:
  "fst (interpretResponse rt lib cfg response request w) = Inr bids
     \<Longrightarrow> bids = JUndefined \<or> interpretResponse_body rt lib cfg response request = Inr bids"
  by (auto simp add: interpretResponse_def try_catch_def split: sum.splits)


lemma filterE_total:
  "(\<And>x. x \<in> set xs \<Longrightarrow> p x = Inr (q x)) \<Longrightarrow> filterE p xs = Inr (filter q xs)"
  by (induction xs) (simp_all add: thenE_def)

lemma sync_allowed_eq:
  assumes "\<not> nullish s" and "\<not> nullish syncOptions"
  shows "sync_allowed syncOptions s
           = Inr ((prop_of s ''type'' = JStr ''iframe'' \<and> truthy (prop_of syncOptions ''iframeEnabled''))
                  \<or> (prop_of s ''type'' = JStr ''image'' \<and> truthy (prop_of syncOptions ''pixelEnabled'')))"
  using assms by (auto simp add: sync_allowed_def thenE_def get_prop_def)

lemma flatten1_userSyncs_of:
  assumes "nullish (opt_get (opt_get (opt_get res ''body'') ''ext'') ''userSyncs'')
           \<or> isArray (opt_get (opt_get (opt_get res ''body'') ''ext'') ''userSyncs'')"
  shows "flatten1 (userSyncs_of res)
           = elems (opt_get (opt_get (opt_get res ''body'') ''ext'') ''userSyncs'')"
proof (cases "nullish (opt_get (opt_get (opt_get res ''body'') ''ext'') ''userSyncs'')")
  case True
  then show ?thesis
    by (cases "opt_get (opt_get (opt_get res ''body'') ''ext'') ''userSyncs''")
      (simp_all add: userSyncs_of_def flatten1_def Let_def)
next
  case False
  then show ?thesis using assms by (simp add: userSyncs_of_def flatten1_def Let_def)
qed


section \<open>The examples, evaluated\<close>

lemma example_request_built:
  "converter_request example_runtime example_config (\<lambda>i b c. Inr example_request) JNull JNull JNull
     = Inr example_built"
  by code_simp

lemma bare_banner_request_built:
  "converter_request example_runtime example_config (\<lambda>i b c. Inr bare_banner_request) JNull JNull JNull
     = Inr bare_banner_built"
  by code_simp


lemma sized_request_built:
  "converter_request example_runtime example_config (\<lambda>i b c. Inr sized_request) JNull JNull JNull
     = Inr sized_built"
  by code_simp

lemma invalid_format_request_throws:
  "converter_request example_runtime example_config (\<lambda>i b c. Inr invalid_format_request) JNull JNull JNull
     = Inl (mk_Error ''Invalid banner format dimensions at impression 0: w=300, h=250'')"
  by code_simp

lemma example_response_interpreted:
  "fst (interpretResponse example_runtime example_library example_config example_response
          example_server_request empty_world)
     = Inr example_interpreted"
  by code_simp

section \<open>Claims about the validation gate\<close>

text \<open>
  C3: the account identifier is valid exactly when it is a number (any number, zero
  included) or a string with a character that is not white space; \<^verbatim>\<open>null\<close>,
  \<^verbatim>\<open>undefined\<close>, an empty or white-space-only string and a value of any other type are
  invalid. \<^verbatim>\<open>isBidRequestValid\<close> returns \<^verbatim>\<open>true\<close> exactly for a valid configured
  identifier, and \<^verbatim>\<open>false\<close> for an invalid one that is a primitive value (or any value
  with a string form, which the warning's message needs).
\<close>

theorem isBidRequestValid_gate:
  "(isValidAccountID accountID \<longleftrightarrow>
      (\<exists>n. accountID = JNum n) \<or>
      (\<exists>s. accountID = JStr s \<and> (\<exists>c \<in> set s. \<not> is_whitespace c)))
   \<and> isValidAccountID (JNum (Fin 0))
   \<and> \<not> isValidAccountID JNull
   \<and> \<not> isValidAccountID JUndefined
   \<and> (fst (isBidRequestValid rt cfg bid w) = Inr (JBool True)
        \<longleftrightarrow> isValidAccountID (readConfig cfg ''aps.accountID''))
   \<and> (\<not> isValidAccountID (readConfig cfg ''aps.accountID'')
        \<and> (\<not> objlike (readConfig cfg ''aps.accountID'')
           \<or> (\<exists>text. ToString rt (readConfig cfg ''aps.accountID'') = Inr text))
        \<longrightarrow> fst (isBidRequestValid rt cfg bid w) = Inr (JBool False))"
proof -
  have "fst (isBidRequestValid rt cfg bid w) = Inr (JBool True)
        \<longleftrightarrow> isValidAccountID (readConfig cfg ''aps.accountID'')"
  proof (cases "isValidAccountID (readConfig cfg ''aps.accountID'')")
    case True
    then show ?thesis by (simp add: isBidRequestValid_valid)
  next
    case False
    then show ?thesis
      by (cases "ToString rt (readConfig cfg ''aps.accountID'')")
        (simp_all add: isBidRequestValid_invalid isBidRequestValid_throws)
  qed
  moreover have "fst (isBidRequestValid rt cfg bid w) = Inr (JBool False)"
    if "\<not> isValidAccountID (readConfig cfg ''aps.accountID'')"
      and "\<not> objlike (readConfig cfg ''aps.accountID'')
           \<or> (\<exists>text. ToString rt (readConfig cfg ''aps.accountID'') = Inr text)"
  proof -
    from that(2) obtain t where "ToString rt (readConfig cfg ''aps.accountID'') = Inr t"
      using ToString_primitive [of "readConfig cfg ''aps.accountID''" rt] by blast
    then show ?thesis using that(1) by (simp add: isBidRequestValid_invalid)
  qed
  ultimately show ?thesis
    using isValidAccountID_iff [of accountID]
    by (simp add: isValidAccountID_def)
qed

theorem isBidRequestValid_gate_witness:
  "isValidAccountID (JStr '' a1 '')
   \<and> \<not> isValidAccountID (JStr ''  '')
   \<and> \<not> isValidAccountID (JBool True)
   \<and> fst (isBidRequestValid example_runtime (\<lambda>k. JStr '' a1 '') JNull empty_world)
       = Inr (JBool True)
   \<and> fst (isBidRequestValid example_runtime (\<lambda>k. JStr ''  '') JNull empty_world)
       = Inr (JBool False)"
  using isBidRequestValid_gate [of "JStr '' a1 ''" example_runtime "\<lambda>k. JStr '' a1 ''" JNull empty_world]
        isBidRequestValid_gate [of "JStr ''  ''" example_runtime "\<lambda>k. JStr ''  ''" JNull empty_world]
        isBidRequestValid_gate [of "JBool True"]
  by (simp add: readConfig_def is_whitespace_def)

section \<open>Claims about the telemetry recorder\<close>

text \<open>
  C9: when telemetry is switched off (\<^verbatim>\<open>aps.telemetry\<close> is \<^verbatim>\<open>false\<close>) or no account
  identifier is configured (\<^verbatim>\<open>aps.accountID\<close> is falsy), \<^verbatim>\<open>record\<close> leaves the world as
  it is: \<^verbatim>\<open>window._aps\<close> is neither created nor changed, and no queue grows.
\<close>

theorem record_disabled_noop:
  "readConfig cfg ''aps.telemetry'' = JBool False \<or> \<not> truthy (readConfig cfg ''aps.accountID'')
   \<Longrightarrow> record_js cfg eventName data w = w"
  by (auto simp add: record_js_def Let_def)

theorem record_disabled_noop_witness:
  "record_js (\<lambda>k. if k = ''aps.telemetry'' then JBool False else JStr ''acct'')
     ''onBidWon'' None empty_world = empty_world
   \<and> record_js (\<lambda>k. JUndefined) ''onTimeout'' (Some [(''error'', JNull)]) empty_world
       = empty_world"
  using record_disabled_noop [of "\<lambda>k. if k = ''aps.telemetry'' then JBool False else JStr ''acct''"
          "''onBidWon''" None empty_world]
        record_disabled_noop [of "\<lambda>k. JUndefined" "''onTimeout''" "Some [(''error'', JNull)]"
          empty_world]
  by (simp add: readConfig_def)

text \<open>
  C10: with the account identifier \<open>0\<close> the validation gate accepts the request
  (\<^verbatim>\<open>isBidRequestValid\<close> returns \<^verbatim>\<open>true\<close>), and every call of \<^verbatim>\<open>record\<close> returns without
  an event, since \<^verbatim>\<open>!accountID\<close> holds of \<open>0\<close>: the world is unchanged.
\<close>

theorem zero_account_valid_but_silent:
  "readConfig cfg ''aps.accountID'' = JNum (Fin 0) \<Longrightarrow>
     isValidAccountID (readConfig cfg ''aps.accountID'')
     \<and> isBidRequestValid rt cfg bid w = (Inr (JBool True), w)
     \<and> record_js cfg eventName data w = w"
  by (simp add: isBidRequestValid_valid record_js_def isValidAccountID_def)

theorem zero_account_valid_but_silent_witness:
  "isValidAccountID (JNum (Fin 0))
   \<and> isBidRequestValid example_runtime (\<lambda>k. JNum (Fin 0)) JNull empty_world
       = (Inr (JBool True), empty_world)
   \<and> record_js (\<lambda>k. JNum (Fin 0)) ''buildRequests'' None empty_world = empty_world"
  using zero_account_valid_but_silent [of "\<lambda>k. JNum (Fin 0)" example_runtime JNull empty_world
          "''buildRequests''" None]
  by (simp add: readConfig_def)

section \<open>Claims about the request hook\<close>

text \<open>
  C2: a request the \<^verbatim>\<open>request\<close> hook returns has no \<^verbatim>\<open>lat\<close> and no \<^verbatim>\<open>lon\<close> key
  under \<^verbatim>\<open>device.geo\<close>, and none of the keys \<^verbatim>\<open>gender\<close>, \<^verbatim>\<open>yob\<close>, \<^verbatim>\<open>keywords\<close>,
  \<^verbatim>\<open>kwarry\<close>, \<^verbatim>\<open>customdata\<close>, \<^verbatim>\<open>geo\<close>, \<^verbatim>\<open>data\<close> under \<^verbatim>\<open>user\<close>, whatever the
  generic builder put there.
\<close>

theorem request_hook_strips_private_fields:
  assumes "converter_request rt cfg buildRequest imps bidderRequest ctx = Inr result"
  shows "\<not> has_own (opt_get (opt_get result ''device'') ''geo'') ''lat''
       \<and> \<not> has_own (opt_get (opt_get result ''device'') ''geo'') ''lon''
       \<and> (\<forall>k \<in> {''gender'', ''yob'', ''keywords'', ''kwarry'', ''customdata'', ''geo'', ''data''}.
            \<not> has_own (opt_get result ''user'') k)"
proof -
  from assms obtain request r1 r2 where
    "privacy_edits request = Inr r1" and "account_and_currency cfg r1 = Inr r2"
    and "check_impressions rt r2 = Inr result"
    by (auto simp add: converter_request_def thenE_Inr_iff)
  then have "prop_of result ''device'' = prop_of r1 ''device''"
    and "prop_of result ''user'' = prop_of r1 ''user''"
    by (simp_all add: account_and_currency_InrD(3) check_impressions_InrD)
  then show ?thesis
    using privacy_edits_InrD [OF \<open>privacy_edits request = Inr r1\<close>]
    by (simp add: opt_get_prop_of)
qed

theorem request_hook_strips_private_fields_witness:
  "converter_request example_runtime example_config (\<lambda>i b c. Inr example_request) JNull JNull JNull
     = Inr example_built
   \<and> has_own (opt_get (opt_get example_request ''device'') ''geo'') ''lat''
   \<and> has_own (opt_get example_request ''user'') ''yob''
   \<and> \<not> has_own (opt_get (opt_get example_built ''device'') ''geo'') ''lat''
   \<and> \<not> has_own (opt_get (opt_get example_built ''device'') ''geo'') ''lon''
   \<and> \<not> has_own (opt_get example_built ''user'') ''gender''
   \<and> \<not> has_own (opt_get example_built ''user'') ''yob''
   \<and> \<not> has_own (opt_get example_built ''user'') ''keywords''
   \<and> \<not> has_own (opt_get example_built ''user'') ''kwarry''
   \<and> \<not> has_own (opt_get example_built ''user'') ''customdata''
   \<and> \<not> has_own (opt_get example_built ''user'') ''geo''
   \<and> \<not> has_own (opt_get example_built ''user'') ''data''"
proof -
  have "has_own (opt_get (opt_get example_request ''device'') ''geo'') ''lat''"
    and "has_own (opt_get example_request ''user'') ''yob''"
    by code_simp+
  then show ?thesis
    using request_hook_strips_private_fields [OF example_request_built] example_request_built
    by simp
qed


text \<open>
  C1 as stated fails: a request whose only impression has a banner with no width, no
  height and no format list passes the \<^verbatim>\<open>request\<close> hook, which returns the request
  with the banner as it was, and \<^verbatim>\<open>buildRequests\<close> returns the descriptor of the HTTP
  call with that request as its data.
\<close>

theorem dimensionless_banner_counterexample:
  "converter_request example_runtime example_config (\<lambda>i b c. Inr bare_banner_request) JNull JNull JNull
     = Inr bare_banner_built
   \<and> prop_of (elems (prop_of bare_banner_request ''imp'') ! 0) ''banner'' = JObj []
   \<and> prop_of (elems (prop_of bare_banner_built ''imp'') ! 0) ''banner'' = JObj []
   \<and> fst (buildRequests example_runtime
              (example_library\<lparr>lib_buildRequest := (\<lambda>imps bidderRequest ctx. Inr bare_banner_request)\<rparr>)
              example_config (JArr [] []) JNull empty_world)
       = Inr (JObj [(''method'', JStr ''POST''),
                    (''url'', JStr AAX_ENDPOINT),
                    (''data'', bare_banner_built),
                    (''options'', JObj [(''contentType'', JStr ''application/json'')])])"
  by code_simp

text \<open>
  C1, amended: for an impression with a banner that lacks both width and height and has
  no non-empty format list, the callback of the impression loop does not throw and
  returns the impression unchanged; a request the hook returns holds the impression as
  it was, without dimensions. (The hook throws on a request without an impressions
  array, on an impression that is falsy, and on a first format entry without numeric
  dimensions.)
\<close>

theorem dimensionless_banner_passes:
  assumes "buildRequest imps bidderRequest ctx = Inr request"
    and "i < length (elems (prop_of request ''imp''))"
    and "imp = elems (prop_of request ''imp'') ! i"
    and "truthy imp"
    and "banner = prop_of imp ''banner''"
    and "truthy banner"
    and "prop_of banner ''w'' = JUndefined" and "prop_of banner ''h'' = JUndefined"
    and "\<not> (isArray (prop_of banner ''format'') \<and> length (elems (prop_of banner ''format'')) > 0)"
  shows "request_imp rt i imp = Inr imp
       \<and> (\<forall>result. converter_request rt cfg buildRequest imps bidderRequest ctx = Inr result
            \<longrightarrow> elems (prop_of result ''imp'') ! i = imp)"
proof -
  have "doesHWExist rt (prop_of imp ''banner'') = Inr False"
    using assms(5,7) doesHWExist_lacking [of banner rt] by simp
  then have cb: "request_imp rt i imp = Inr imp"
    using assms(4,5,9) by (simp add: request_imp_no_format [where hw = False])
  have "elems (prop_of result ''imp'') ! i = imp"
    if "converter_request rt cfg buildRequest imps bidderRequest ctx = Inr result" for result
    using converter_request_imps [OF that assms(1)] assms(2,3) cb
    by (auto simp add: forEachE_Inr_iff)
  with cb show ?thesis by simp
qed

theorem dimensionless_banner_passes_witness:
  "prop_of (prop_of (elems (prop_of bare_banner_request ''imp'') ! 0) ''banner'') ''w'' = JUndefined
   \<and> prop_of (prop_of (elems (prop_of bare_banner_request ''imp'') ! 0) ''banner'') ''h'' = JUndefined
   \<and> \<not> isArray (prop_of (prop_of (elems (prop_of bare_banner_request ''imp'') ! 0) ''banner'') ''format'')
   \<and> request_imp example_runtime 0 (elems (prop_of bare_banner_request ''imp'') ! 0)
       = Inr (elems (prop_of bare_banner_request ''imp'') ! 0)
   \<and> elems (prop_of bare_banner_built ''imp'') ! 0 = elems (prop_of bare_banner_request ''imp'') ! 0"
proof -
  have 2: "0 < length (elems (prop_of bare_banner_request ''imp''))" by code_simp
  have 4: "truthy (elems (prop_of bare_banner_request ''imp'') ! 0)" by code_simp
  have 6: "truthy (prop_of (elems (prop_of bare_banner_request ''imp'') ! 0) ''banner'')" by code_simp
  have 7: "prop_of (prop_of (elems (prop_of bare_banner_request ''imp'') ! 0) ''banner'') ''w'' = JUndefined"
    by code_simp
  have 8: "prop_of (prop_of (elems (prop_of bare_banner_request ''imp'') ! 0) ''banner'') ''h'' = JUndefined"
    by code_simp
  have 9: "\<not> isArray (prop_of (prop_of (elems (prop_of bare_banner_request ''imp'') ! 0) ''banner'') ''format'')"
    by code_simp
  show ?thesis
    using dimensionless_banner_passes [where buildRequest = "\<lambda>i b c. Inr bare_banner_request"
        and imps = JNull and bidderRequest = JNull and ctx = JNull
        and request = bare_banner_request and i = 0
        and imp = "elems (prop_of bare_banner_request ''imp'') ! 0"
        and banner = "prop_of (elems (prop_of bare_banner_request ''imp'') ! 0) ''banner''"
        and rt = example_runtime and cfg = example_config]
      bare_banner_request_built 2 4 6 7 8 9
    by simp
qed

text \<open>
  C4: take an impression of the request the generic builder returned, with a banner.
  If the banner lacks both width and height and its format list is not empty, then a
  request the hook returns has \<^verbatim>\<open>banner.w\<close> and \<^verbatim>\<open>banner.h\<close> of that impression equal
  to the first format entry's \<^verbatim>\<open>w\<close> and \<^verbatim>\<open>h\<close> when both are numbers; when one of them
  is not a number the hook throws, and the callback's error for that impression is the
  validation error (for an entry that is an object whose \<^verbatim>\<open>w\<close> and \<^verbatim>\<open>h\<close> have a string
  form). If width and height are present
  (\<^verbatim>\<open>w >= 0\<close> and \<^verbatim>\<open>h >= 0\<close> hold), or the impression has no banner, the impression
  stays as it was.
\<close>

theorem request_hook_banner_backfill:
  assumes "buildRequest imps bidderRequest ctx = Inr request"
    and "i < length (elems (prop_of request ''imp''))"
    and "imp = elems (prop_of request ''imp'') ! i"
    and "truthy imp"
    and "banner = prop_of imp ''banner''"
    and "hook = converter_request rt cfg buildRequest imps bidderRequest ctx"
  shows
    "(prop_of banner ''w'' = JUndefined \<and> prop_of banner ''h'' = JUndefined
        \<and> isArray (prop_of banner ''format'') \<and> elems (prop_of banner ''format'') = entry # rest
      \<longrightarrow>
        (is_number (prop_of entry ''w'') \<and> is_number (prop_of entry ''h'') \<longrightarrow>
           (\<forall>result. hook = Inr result \<longrightarrow>
              prop_of (prop_of (elems (prop_of result ''imp'') ! i) ''banner'') ''w''
                = prop_of entry ''w''
              \<and> prop_of (prop_of (elems (prop_of result ''imp'') ! i) ''banner'') ''h''
                = prop_of entry ''h''))
        \<and> (\<not> (is_number (prop_of entry ''w'') \<and> is_number (prop_of entry ''h'')) \<longrightarrow>
             isl hook
             \<and> (\<not> nullish entry \<and> ToString rt (prop_of entry ''w'') = Inr w_text
                   \<and> ToString rt (prop_of entry ''h'') = Inr h_text \<longrightarrow>
                  request_imp rt i imp =
                    Inl (mk_Error (''Invalid banner format dimensions at impression ''
                                   @ NumberToString rt (Fin (of_nat i))
                                   @ '': w='' @ w_text @ '', h='' @ h_text)))))
     \<and> (doesHWExist rt banner = Inr True \<longrightarrow>
          (\<forall>result. hook = Inr result \<longrightarrow> elems (prop_of result ''imp'') ! i = imp))
     \<and> (\<not> truthy banner \<longrightarrow>
          (\<forall>result. hook = Inr result \<longrightarrow> elems (prop_of result ''imp'') ! i = imp))"
proof -
  have result_imp: "request_imp rt i imp = Inr (elems (prop_of result ''imp'') ! i)"
    if "hook = Inr result" for result
    using converter_request_imps [OF that [unfolded assms(6)] assms(1)] assms(2,3)
    by (auto simp add: forEachE_Inr_iff)
  have throws: "isl hook" if "isl (request_imp rt i imp)"
  proof (cases hook)
    case (Inr result)
    then show ?thesis using result_imp [OF Inr] that by simp
  qed simp
  have backfill:
    "prop_of (prop_of (elems (prop_of result ''imp'') ! i) ''banner'') ''w'' = prop_of entry ''w''
     \<and> prop_of (prop_of (elems (prop_of result ''imp'') ! i) ''banner'') ''h'' = prop_of entry ''h''"
    if "prop_of banner ''w'' = JUndefined"
      "isArray (prop_of banner ''format'')" "elems (prop_of banner ''format'') = entry # rest"
      "is_number (prop_of entry ''w'')" "is_number (prop_of entry ''h'')" "hook = Inr result"
    for result
    using request_imp_backfill_props [of imp rt entry rest i "elems (prop_of result ''imp'') ! i"]
      that result_imp [OF that(6)] assms(4,5) doesHWExist_lacking [of banner rt] by simp
  have invalid:
    "isl hook \<and> (\<not> nullish entry \<and> ToString rt (prop_of entry ''w'') = Inr w_text
                   \<and> ToString rt (prop_of entry ''h'') = Inr h_text \<longrightarrow>
        request_imp rt i imp =
          Inl (mk_Error (''Invalid banner format dimensions at impression ''
                         @ NumberToString rt (Fin (of_nat i))
                         @ '': w='' @ w_text @ '', h='' @ h_text)))"
    if "prop_of banner ''w'' = JUndefined"
      "isArray (prop_of banner ''format'')" "elems (prop_of banner ''format'') = entry # rest"
      "\<not> (is_number (prop_of entry ''w'') \<and> is_number (prop_of entry ''h''))"
  proof -
    have hw: "doesHWExist rt (prop_of imp ''banner'') = Inr False"
      using that(1) assms(5) doesHWExist_lacking [of banner rt] by simp
    have "isl (request_imp rt i imp)"
      using request_imp_invalid_isl [OF assms(4) hw, of entry rest i] that assms(5) by simp
    then have "isl hook" by (rule throws)
    then show ?thesis
      using request_imp_invalid [OF assms(4) hw, of entry rest i] that assms(5)
      by (simp add: thenE_def)
  qed
  have present: "elems (prop_of result ''imp'') ! i = imp"
    if "doesHWExist rt banner = Inr True" "hook = Inr result"
    for result
    using request_imp_present [of imp rt i] that result_imp [OF that(2)] assms(4,5) by simp
  have no_banner: "elems (prop_of result ''imp'') ! i = imp"
    if "\<not> truthy banner" "hook = Inr result" for result
    using request_imp_no_banner [of imp rt i] that result_imp [OF that(2)] assms(4,5) by simp
  show ?thesis
    using backfill invalid present no_banner by blast
qed

theorem request_hook_banner_backfill_witness:
  "prop_of (prop_of (elems (prop_of example_built ''imp'') ! 0) ''banner'') ''w'' = JNum (Fin 300)
   \<and> prop_of (prop_of (elems (prop_of example_built ''imp'') ! 0) ''banner'') ''h'' = JNum (Fin 250)
   \<and> isl (converter_request example_runtime example_config
             (\<lambda>i b c. Inr invalid_format_request) JNull JNull JNull)
   \<and> request_imp example_runtime 0 (elems (prop_of invalid_format_request ''imp'') ! 0)
       = Inl (mk_Error ''Invalid banner format dimensions at impression 0: w=300, h=250'')
   \<and> converter_request example_runtime example_config
         (\<lambda>i b c. Inr invalid_format_request) JNull JNull JNull
       = Inl (mk_Error ''Invalid banner format dimensions at impression 0: w=300, h=250'')
   \<and> elems (prop_of sized_built ''imp'') ! 0 = elems (prop_of sized_request ''imp'') ! 0
   \<and> elems (prop_of sized_built ''imp'') ! 1 = elems (prop_of sized_request ''imp'') ! 1"
proof -
  have a: "0 < length (elems (prop_of example_request ''imp''))"
    "truthy (elems (prop_of example_request ''imp'') ! 0)"
    "prop_of (prop_of (elems (prop_of example_request ''imp'') ! 0) ''banner'') ''w'' = JUndefined"
    "prop_of (prop_of (elems (prop_of example_request ''imp'') ! 0) ''banner'') ''h'' = JUndefined"
    "isArray (prop_of (prop_of (elems (prop_of example_request ''imp'') ! 0) ''banner'') ''format'')"
    "elems (prop_of (prop_of (elems (prop_of example_request ''imp'') ! 0) ''banner'') ''format'')
       = JObj [(''w'', JNum (Fin 300)), (''h'', JNum (Fin 250))]
         # [JObj [(''w'', JNum (Fin 728)), (''h'', JNum (Fin 90))]]"
    "prop_of (JObj [(''w'', JNum (Fin 300)), (''h'', JNum (Fin 250))]) ''w'' = JNum (Fin 300)"
    "prop_of (JObj [(''w'', JNum (Fin 300)), (''h'', JNum (Fin 250))]) ''h'' = JNum (Fin 250)"
    by code_simp+
  have b: "0 < length (elems (prop_of invalid_format_request ''imp''))"
    "truthy (elems (prop_of invalid_format_request ''imp'') ! 0)"
    "prop_of (prop_of (elems (prop_of invalid_format_request ''imp'') ! 0) ''banner'') ''w'' = JUndefined"
    "prop_of (prop_of (elems (prop_of invalid_format_request ''imp'') ! 0) ''banner'') ''h'' = JUndefined"
    "isArray (prop_of (prop_of (elems (prop_of invalid_format_request ''imp'') ! 0) ''banner'') ''format'')"
    "elems (prop_of (prop_of (elems (prop_of invalid_format_request ''imp'') ! 0) ''banner'') ''format'')
       = JObj [(''w'', JStr ''300''), (''h'', JNum (Fin 250))] # []"
    by code_simp+
  have c: "0 < length (elems (prop_of sized_request ''imp''))"
    "1 < length (elems (prop_of sized_request ''imp''))"
    "truthy (elems (prop_of sized_request ''imp'') ! 0)"
    "truthy (elems (prop_of sized_request ''imp'') ! 1)"
    "doesHWExist example_runtime (prop_of (elems (prop_of sized_request ''imp'') ! 0) ''banner'') = Inr True"
    "\<not> truthy (prop_of (elems (prop_of sized_request ''imp'') ! 1) ''banner'')"
    by code_simp+
  note t = request_hook_banner_backfill [where imps = JNull and bidderRequest = JNull
      and ctx = JNull and rt = example_runtime and cfg = example_config, OF _ _ refl _ refl refl]
  have 1: "prop_of (prop_of (elems (prop_of example_built ''imp'') ! 0) ''banner'') ''w'' = JNum (Fin 300)
    \<and> prop_of (prop_of (elems (prop_of example_built ''imp'') ! 0) ''banner'') ''h'' = JNum (Fin 250)"
    using t [where buildRequest = "\<lambda>i b c. Inr example_request" and request = example_request
        and i = 0 and entry = "JObj [(''w'', JNum (Fin 300)), (''h'', JNum (Fin 250))]"
        and rest = "[JObj [(''w'', JNum (Fin 728)), (''h'', JNum (Fin 90))]]"]
      a example_request_built
    by simp
  have 2: "isl (converter_request example_runtime example_config
             (\<lambda>i b c. Inr invalid_format_request) JNull JNull JNull)
    \<and> request_imp example_runtime 0 (elems (prop_of invalid_format_request ''imp'') ! 0)
       = Inl (mk_Error ''Invalid banner format dimensions at impression 0: w=300, h=250'')"
  proof -
    have notnum:
      "\<not> (is_number (prop_of (JObj [(''w'', JStr ''300''), (''h'', JNum (Fin 250))]) ''w'')
          \<and> is_number (prop_of (JObj [(''w'', JStr ''300''), (''h'', JNum (Fin 250))]) ''h''))"
      by code_simp
    have nn: "\<not> nullish (JObj [(''w'', JStr ''300''), (''h'', JNum (Fin 250))])" by simp
    have ts:
      "ToString example_runtime
         (prop_of (JObj [(''w'', JStr ''300''), (''h'', JNum (Fin 250))]) ''w'') = Inr ''300''"
      "ToString example_runtime
         (prop_of (JObj [(''w'', JStr ''300''), (''h'', JNum (Fin 250))]) ''h'') = Inr ''250''"
      by code_simp+
    from t [where buildRequest = "\<lambda>i b c. Inr invalid_format_request"
        and request = invalid_format_request
        and i = 0 and entry = "JObj [(''w'', JStr ''300''), (''h'', JNum (Fin 250))]"
        and rest = "[]" and w_text = "''300''" and h_text = "''250''", OF refl b(1) b(2)]
      b(3,4,5,6) notnum nn ts
    have "isl (converter_request example_runtime example_config
               (\<lambda>i b c. Inr invalid_format_request) JNull JNull JNull)"
      and "request_imp example_runtime 0 (elems (prop_of invalid_format_request ''imp'') ! 0)
         = Inl (mk_Error (''Invalid banner format dimensions at impression ''
                          @ NumberToString example_runtime (Fin (of_nat 0))
                          @ '': w='' @ ''300'' @ '', h='' @ ''250''))"
      by blast+
    moreover have "''Invalid banner format dimensions at impression ''
                     @ NumberToString example_runtime (Fin (of_nat 0))
                     @ '': w='' @ ''300'' @ '', h='' @ ''250''
                   = ''Invalid banner format dimensions at impression 0: w=300, h=250''"
      by code_simp
    ultimately show ?thesis by simp
  qed
  have 3: "elems (prop_of sized_built ''imp'') ! 0 = elems (prop_of sized_request ''imp'') ! 0"
    using t [where buildRequest = "\<lambda>i b c. Inr sized_request" and request = sized_request
        and i = 0] c sized_request_built
    by simp
  have 4: "elems (prop_of sized_built ''imp'') ! 1 = elems (prop_of sized_request ''imp'') ! 1"
    using t [where buildRequest = "\<lambda>i b c. Inr sized_request" and request = sized_request
        and i = 1] c sized_request_built
    by simp
  from 1 2 3 4 invalid_format_request_throws show ?thesis by simp
qed

section \<open>Claims about the response hook\<close>

text \<open>
  C5 as stated fails: the hook assigns \<^verbatim>\<open>vastUrl\<close> only when the generic builder
  returned a bid response whose \<^verbatim>\<open>mediaType\<close> is video. For a wire bid with
  \<^verbatim>\<open>mtype\<close> 2 and a builder that takes the media type \<^verbatim>\<open>banner\<close> from its context,
  \<^verbatim>\<open>adm\<close> is deleted from the wire bid and the resulting bid has no \<^verbatim>\<open>vastUrl\<close>.
\<close>

theorem bidResponse_hook_video_counterexample:
  "prop_of example_video_bid ''mtype'' = JNum (Fin 2)
   \<and> prop_of example_video_bid ''adm'' = JStr ''<VAST></VAST>''
   \<and> converter_bidResponse example_buildBidResponse example_video_bid
         (JObj [(''mediaType'', JStr BANNER)])
       = Inr (JObj [(''id'', JStr ''b-2''), (''impid'', JStr ''2''), (''price'', JNum (Fin 3)),
                    (''mtype'', JNum (Fin 2))],
              JObj [(''requestId'', JStr ''2''), (''cpm'', JNum (Fin 3)),
                    (''seatBidId'', JStr ''b-2''), (''mediaType'', JStr BANNER)])
   \<and> prop_of (JObj [(''requestId'', JStr ''2''), (''cpm'', JNum (Fin 3)),
                     (''seatBidId'', JStr ''b-2''), (''mediaType'', JStr BANNER)]) ''vastUrl''
       = JUndefined"
  by code_simp

text \<open>
  C5, amended: for a wire bid whose \<^verbatim>\<open>mtype\<close> is 2 the hook captures \<^verbatim>\<open>adm\<close> and
  deletes it from the wire bid before the generic conversion, which receives the bid
  without \<^verbatim>\<open>adm\<close>; when the conversion yields a bid response whose \<^verbatim>\<open>mediaType\<close> is
  video, the hook returns it with \<^verbatim>\<open>vastUrl\<close> equal to the captured \<^verbatim>\<open>adm\<close>; a bid
  response of another media type is returned as converted, and an exception of the
  conversion leaves the hook.
\<close>

theorem bidResponse_hook_video:
  assumes "prop_of bid ''mtype'' = JNum (Fin 2)"
  shows
    "(\<forall>bidResponse.
        buildBidResponse (delete_own ''adm'' bid) ctx = Inr bidResponse
        \<and> prop_of bidResponse ''mediaType'' = JStr VIDEO \<longrightarrow>
          converter_bidResponse buildBidResponse bid ctx
            = Inr (delete_own ''adm'' bid,
                   update_in bidResponse ''vastUrl'' (\<lambda>old. prop_of bid ''adm''))
          \<and> prop_of (update_in bidResponse ''vastUrl'' (\<lambda>old. prop_of bid ''adm'')) ''vastUrl''
              = prop_of bid ''adm''
          \<and> \<not> has_own (delete_own ''adm'' bid) ''adm'')
     \<and> (\<forall>bidResponse.
          buildBidResponse (delete_own ''adm'' bid) ctx = Inr bidResponse
          \<and> \<not> nullish bidResponse \<and> prop_of bidResponse ''mediaType'' \<noteq> JStr VIDEO \<longrightarrow>
            converter_bidResponse buildBidResponse bid ctx = Inr (delete_own ''adm'' bid, bidResponse))
     \<and> (\<forall>err. buildBidResponse (delete_own ''adm'' bid) ctx = Inl err \<longrightarrow>
            converter_bidResponse buildBidResponse bid ctx = Inl err)"
proof -
  have b: "\<not> nullish bid"
    using assms prop_of_not_undefined_objlike [of bid "''mtype''"] objlike_not_nullish by auto
  have video: "converter_bidResponse buildBidResponse bid ctx
            = Inr (delete_own ''adm'' bid,
                   update_in bidResponse ''vastUrl'' (\<lambda>old. prop_of bid ''adm''))
          \<and> prop_of (update_in bidResponse ''vastUrl'' (\<lambda>old. prop_of bid ''adm'')) ''vastUrl''
              = prop_of bid ''adm''
          \<and> \<not> has_own (delete_own ''adm'' bid) ''adm''"
    if "buildBidResponse (delete_own ''adm'' bid) ctx = Inr bidResponse"
      and "prop_of bidResponse ''mediaType'' = JStr VIDEO" for bidResponse
  proof -
    have o: "objlike bidResponse"
      using that(2) VIDEO_truthy truthy_prop_of_objlike [of bidResponse "''mediaType''"] by simp
    then have "\<not> nullish bidResponse" by (rule objlike_not_nullish)
    then show ?thesis
      using assms b that o
      by (simp add: converter_bidResponse_def thenE_def get_prop_def Let_def set_prop_eq
          prop_of_update_in has_own_delete_own)
  qed
  have other: "converter_bidResponse buildBidResponse bid ctx = Inr (delete_own ''adm'' bid, bidResponse)"
    if "buildBidResponse (delete_own ''adm'' bid) ctx = Inr bidResponse"
      and "\<not> nullish bidResponse" and "prop_of bidResponse ''mediaType'' \<noteq> JStr VIDEO"
    for bidResponse
    using assms b that
    by (simp add: converter_bidResponse_def thenE_def get_prop_def Let_def)
  have fails: "converter_bidResponse buildBidResponse bid ctx = Inl err"
    if "buildBidResponse (delete_own ''adm'' bid) ctx = Inl err" for err
    using assms b that
    by (simp add: converter_bidResponse_def thenE_def get_prop_def Let_def)
  show ?thesis using video other fails by blast
qed


theorem bidResponse_hook_video_witness:
  "prop_of example_video_bid ''mtype'' = JNum (Fin 2)
   \<and> converter_bidResponse example_buildBidResponse example_video_bid JNull
       = Inr (delete_own ''adm'' example_video_bid,
              JObj [(''requestId'', JStr ''2''), (''cpm'', JNum (Fin 3)),
                    (''seatBidId'', JStr ''b-2''), (''mediaType'', JStr VIDEO),
                    (''vastUrl'', JStr ''<VAST></VAST>'')])
   \<and> \<not> has_own (delete_own ''adm'' example_video_bid) ''adm''"
proof -
  have m: "prop_of example_video_bid ''mtype'' = JNum (Fin 2)" by code_simp
  have b: "example_buildBidResponse (delete_own ''adm'' example_video_bid) JNull
        = Inr (JObj [(''requestId'', JStr ''2''), (''cpm'', JNum (Fin 3)),
                     (''seatBidId'', JStr ''b-2''), (''mediaType'', JStr VIDEO)])"
    by code_simp
  have v: "prop_of (JObj [(''requestId'', JStr ''2''), (''cpm'', JNum (Fin 3)),
                     (''seatBidId'', JStr ''b-2''), (''mediaType'', JStr VIDEO)]) ''mediaType''
        = JStr VIDEO"
    by code_simp
  have u: "update_in (JObj [(''requestId'', JStr ''2''), (''cpm'', JNum (Fin 3)),
                     (''seatBidId'', JStr ''b-2''), (''mediaType'', JStr VIDEO)]) ''vastUrl''
             (\<lambda>old. prop_of example_video_bid ''adm'')
        = JObj [(''requestId'', JStr ''2''), (''cpm'', JNum (Fin 3)),
                    (''seatBidId'', JStr ''b-2''), (''mediaType'', JStr VIDEO),
                    (''vastUrl'', JStr ''<VAST></VAST>'')]"
    by code_simp
  from bidResponse_hook_video [OF m, of example_buildBidResponse JNull] b v
  have "converter_bidResponse example_buildBidResponse example_video_bid JNull
          = Inr (delete_own ''adm'' example_video_bid,
                 update_in (JObj [(''requestId'', JStr ''2''), (''cpm'', JNum (Fin 3)),
                     (''seatBidId'', JStr ''b-2''), (''mediaType'', JStr VIDEO)]) ''vastUrl''
                   (\<lambda>old. prop_of example_video_bid ''adm''))"
    and "\<not> has_own (delete_own ''adm'' example_video_bid) ''adm''"
    by blast+
  with m u show ?thesis by simp
qed

section \<open>Claims about the response interpreter\<close>

text \<open>
  C6 as stated fails: the payload is not the JSON text of the raw response body. The
  \<^verbatim>\<open>bidResponse\<close> hook deletes \<^verbatim>\<open>adm\<close> in place from a wire bid whose \<^verbatim>\<open>mtype\<close> is 2,
  the wire bids are objects of \<^verbatim>\<open>response.body\<close>, and the template serialises
  \<^verbatim>\<open>response.body\<close> after the conversion. For a response with a banner bid and a video
  bid the markup of the banner bid carries the body without the video bid's \<^verbatim>\<open>adm\<close>.
\<close>

theorem raw_body_payload_counterexample:
  \<open>fst (interpretResponse example_runtime example_library example_config example_response
          example_server_request empty_world) = Inr example_interpreted
   \<and> elems example_interpreted ! 0 \<in> set (elems example_interpreted)
   \<and> prop_of (elems example_interpreted ! 0) ''mediaType'' \<noteq> JStr VIDEO
   \<and> JSON_stringify example_runtime (prop_of example_response ''body'') = JStr example_raw_json
   \<and> btoa example_runtime example_raw_json = Inr example_raw_payload
   \<and> btoa example_runtime example_converted_json = Inr example_converted_payload
   \<and> example_converted_json \<noteq> example_raw_json
   \<and> prop_of (elems example_interpreted ! 0) ''ad''
       = JStr (''<script src="https://client.aps.amazon-adsystem.com/prebid-creative.js"></script>\<newline>''
           @ ''<script>\<newline>''
           @ ''  const accountID = 'acct-1';\<newline>''
           @ ''  window._aps = window._aps || new Map();\<newline>''
           @ ''  if (!window._aps.has(accountID)) {\<newline>''
           @ ''    window._aps.set(accountID, { queue: [], store: new Map([['listeners', new Map()]]) });\<newline>''
           @ ''  }\<newline>''
           @ ''  window._aps.get(accountID).queue.push(\<newline>''
           @ ''    new CustomEvent('prebid/creative/render', {\<newline>''
           @ ''      detail: {\<newline>''
           @ ''        aaxResponse: '' @ [CHR 0x27] @ example_converted_payload @ [CHR 0x27] @ '',\<newline>''
           @ ''        seatBidId: "b-1"\<newline>''
           @ ''      }\<newline>''
           @ ''    })\<newline>''
           @ ''  );\<newline>''
           @ ''</script>'')
   \<and> prop_of (elems example_interpreted ! 0) ''ad''
       \<noteq> JStr (''<script src="https://client.aps.amazon-adsystem.com/prebid-creative.js"></script>\<newline>''
           @ ''<script>\<newline>''
           @ ''  const accountID = 'acct-1';\<newline>''
           @ ''  window._aps = window._aps || new Map();\<newline>''
           @ ''  if (!window._aps.has(accountID)) {\<newline>''
           @ ''    window._aps.set(accountID, { queue: [], store: new Map([['listeners', new Map()]]) });\<newline>''
           @ ''  }\<newline>''
           @ ''  window._aps.get(accountID).queue.push(\<newline>''
           @ ''    new CustomEvent('prebid/creative/render', {\<newline>''
           @ ''      detail: {\<newline>''
           @ ''        aaxResponse: '' @ [CHR 0x27] @ example_raw_payload @ [CHR 0x27] @ '',\<newline>''
           @ ''        seatBidId: "b-1"\<newline>''
           @ ''      }\<newline>''
           @ ''    })\<newline>''
           @ ''  );\<newline>''
           @ ''</script>'')\<close>
  by code_simp

text \<open>
  C6, amended: every bid that \<^verbatim>\<open>interpretResponse\<close> returns and that is not a video
  bid has as its \<^verbatim>\<open>ad\<close> the text below: one script tag that loads the configured (or
  default) creative URL, followed by one inline script whose payload \<^verbatim>\<open>aaxResponse\<close> is
  \<^verbatim>\<open>btoa\<close> of the JSON text of the response body as the conversion left it, together
  with the JSON text of the bid's \<^verbatim>\<open>seatBidId\<close>.
\<close>

theorem non_video_bid_markup:
  assumes "fst (interpretResponse rt lib cfg response request w) = Inr bids"
    and "bid \<in> set (elems bids)"
    and "prop_of bid ''mediaType'' \<noteq> JStr VIDEO"
  shows \<open>\<exists>body1 interpretedResponse creativeUrl accountID body_json aaxResponse seatBidId.
           converter_fromORTB lib (prop_of response ''body'') (prop_of request ''data'')
             = Inr (body1, interpretedResponse)
         \<and> ToString rt (if truthy (readConfig cfg ''aps.creativeURL'')
                        then readConfig cfg ''aps.creativeURL''
                        else JStr DEFAULT_PREBID_CREATIVE_JS_URL) = Inr creativeUrl
         \<and> ToString rt (readConfig cfg ''aps.accountID'') = Inr accountID
         \<and> ToString rt (JSON_stringify rt body1) = Inr body_json
         \<and> btoa rt body_json = Inr aaxResponse
         \<and> ToString rt (JSON_stringify rt (prop_of bid ''seatBidId'')) = Inr seatBidId
         \<and> prop_of bid ''ad''
             = JStr (''<script src="'' @ creativeUrl @ ''"></script>\<newline>''
                 @ ''<script>\<newline>''
                 @ ''  const accountID = '' @ [CHR 0x27] @ accountID @ [CHR 0x27] @ '';\<newline>''
                 @ ''  window._aps = window._aps || new Map();\<newline>''
                 @ ''  if (!window._aps.has(accountID)) {\<newline>''
                 @ ''    window._aps.set(accountID, { queue: [], store: new Map([['listeners', new Map()]]) });\<newline>''
                 @ ''  }\<newline>''
                 @ ''  window._aps.get(accountID).queue.push(\<newline>''
                 @ ''    new CustomEvent('prebid/creative/render', {\<newline>''
                 @ ''      detail: {\<newline>''
                 @ ''        aaxResponse: '' @ [CHR 0x27] @ aaxResponse @ [CHR 0x27] @ '',\<newline>''
                 @ ''        seatBidId: '' @ seatBidId @ ''\<newline>''
                 @ ''      }\<newline>''
                 @ ''    })\<newline>''
                 @ ''  );\<newline>''
                 @ ''</script>'')\<close>
proof -
  from assms(2) have "bids \<noteq> JUndefined" by auto
  with assms(1) have "interpretResponse_body rt lib cfg response request = Inr bids"
    using interpretResponse_result by blast
  then obtain body1 interpretedResponse bids0 where
    c: "converter_fromORTB lib (prop_of response ''body'') (prop_of request ''data'')
          = Inr (body1, interpretedResponse)"
    and f: "forEachE (interpret_bid rt (readConfig cfg ''aps.accountID'')
             (if truthy (readConfig cfg ''aps.creativeURL'') then readConfig cfg ''aps.creativeURL''
              else JStr DEFAULT_PREBID_CREATIVE_JS_URL)
             body1) 0 bids0 = Inr (elems bids)"
    using interpretResponse_body_Inr by blast
  from assms(2) obtain i where "i < length (elems bids)" and "elems bids ! i = bid"
    by (auto simp add: in_set_conv_nth)
  with f have "interpret_bid rt (readConfig cfg ''aps.accountID'')
             (if truthy (readConfig cfg ''aps.creativeURL'') then readConfig cfg ''aps.creativeURL''
              else JStr DEFAULT_PREBID_CREATIVE_JS_URL)
             body1 i (bids0 ! i) = Inr bid"
    by (auto simp add: forEachE_Inr_iff)
  from interpret_bid_Inr [OF this assms(3)] obtain u a j p sb where
    "ToString rt (if truthy (readConfig cfg ''aps.creativeURL'')
                  then readConfig cfg ''aps.creativeURL''
                  else JStr DEFAULT_PREBID_CREATIVE_JS_URL) = Inr u"
    "ToString rt (readConfig cfg ''aps.accountID'') = Inr a"
    "ToString rt (JSON_stringify rt body1) = Inr j"
    "btoa rt j = Inr p"
    "ToString rt (JSON_stringify rt (prop_of bid ''seatBidId'')) = Inr sb"
    "prop_of bid ''ad'' = JStr (creative_markup u a p sb)"
    by blast
  with c show ?thesis unfolding creative_markup_def by blast
qed

theorem non_video_bid_markup_witness:
  \<open>fst (interpretResponse example_runtime example_library example_config example_response
          example_server_request empty_world) = Inr example_interpreted
   \<and> elems example_interpreted ! 0 \<in> set (elems example_interpreted)
   \<and> prop_of (elems example_interpreted ! 0) ''mediaType'' \<noteq> JStr VIDEO
   \<and> converter_fromORTB example_library (prop_of example_response ''body'')
         (prop_of example_server_request ''data'')
       = Inr (JObj [(''seatbid'', JArr [JObj [(''bid'',
                      JArr [example_banner_bid,
                            JObj [(''id'', JStr ''b-2''), (''impid'', JStr ''2''),
                                  (''price'', JNum (Fin 3)), (''mtype'', JNum (Fin 2))]] [])]] [])],
              JObj [(''bids'',
                      JArr [JObj [(''requestId'', JStr ''1''), (''cpm'', JNum (Fin 1)),
                                  (''seatBidId'', JStr ''b-1''), (''mediaType'', JStr BANNER)],
                            JObj [(''requestId'', JStr ''2''), (''cpm'', JNum (Fin 3)),
                                  (''seatBidId'', JStr ''b-2''), (''mediaType'', JStr VIDEO),
                                  (''vastUrl'', JStr ''<VAST></VAST>'')]] [])])
   \<and> prop_of (elems example_interpreted ! 0) ''ad''
       = JStr (''<script src="https://client.aps.amazon-adsystem.com/prebid-creative.js"></script>\<newline>''
           @ ''<script>\<newline>''
           @ ''  const accountID = 'acct-1';\<newline>''
           @ ''  window._aps = window._aps || new Map();\<newline>''
           @ ''  if (!window._aps.has(accountID)) {\<newline>''
           @ ''    window._aps.set(accountID, { queue: [], store: new Map([['listeners', new Map()]]) });\<newline>''
           @ ''  }\<newline>''
           @ ''  window._aps.get(accountID).queue.push(\<newline>''
           @ ''    new CustomEvent('prebid/creative/render', {\<newline>''
           @ ''      detail: {\<newline>''
           @ ''        aaxResponse: '' @ [CHR 0x27] @ example_converted_payload @ [CHR 0x27] @ '',\<newline>''
           @ ''        seatBidId: "b-1"\<newline>''
           @ ''      }\<newline>''
           @ ''    })\<newline>''
           @ ''  );\<newline>''
           @ ''</script>'')\<close>
proof -
  have m: "elems example_interpreted ! 0 \<in> set (elems example_interpreted)"
    by (simp add: example_interpreted_def)
  have v: "prop_of (elems example_interpreted ! 0) ''mediaType'' \<noteq> JStr VIDEO"
    by code_simp
  have c: "converter_fromORTB example_library (prop_of example_response ''body'')
         (prop_of example_server_request ''data'')
       = Inr (JObj [(''seatbid'', JArr [JObj [(''bid'',
                      JArr [example_banner_bid,
                            JObj [(''id'', JStr ''b-2''), (''impid'', JStr ''2''),
                                  (''price'', JNum (Fin 3)), (''mtype'', JNum (Fin 2))]] [])]] [])],
              JObj [(''bids'',
                      JArr [JObj [(''requestId'', JStr ''1''), (''cpm'', JNum (Fin 1)),
                                  (''seatBidId'', JStr ''b-1''), (''mediaType'', JStr BANNER)],
                            JObj [(''requestId'', JStr ''2''), (''cpm'', JNum (Fin 3)),
                                  (''seatBidId'', JStr ''b-2''), (''mediaType'', JStr VIDEO),
                                  (''vastUrl'', JStr ''<VAST></VAST>'')]] [])])"
    by code_simp
  have t: "ToString example_runtime
             (if truthy (readConfig example_config ''aps.creativeURL'')
              then readConfig example_config ''aps.creativeURL''
              else JStr DEFAULT_PREBID_CREATIVE_JS_URL)
             = Inr ''https://client.aps.amazon-adsystem.com/prebid-creative.js''"
    "ToString example_runtime (readConfig example_config ''aps.accountID'') = Inr ''acct-1''"
    "ToString example_runtime (JSON_stringify example_runtime
        (JObj [(''seatbid'', JArr [JObj [(''bid'',
                      JArr [example_banner_bid,
                            JObj [(''id'', JStr ''b-2''), (''impid'', JStr ''2''),
                                  (''price'', JNum (Fin 3)), (''mtype'', JNum (Fin 2))]] [])]] [])]))
       = Inr example_converted_json"
    "btoa example_runtime example_converted_json = Inr example_converted_payload"
    "ToString example_runtime
       (JSON_stringify example_runtime (prop_of (elems example_interpreted ! 0) ''seatBidId''))
       = Inr ([CHR 0x22] @ ''b-1'' @ [CHR 0x22])"
    by code_simp+
  from non_video_bid_markup [OF example_response_interpreted m v] c t
  have \<open>prop_of (elems example_interpreted ! 0) ''ad''
       = JStr (''<script src="https://client.aps.amazon-adsystem.com/prebid-creative.js"></script>\<newline>''
           @ ''<script>\<newline>''
           @ ''  const accountID = 'acct-1';\<newline>''
           @ ''  window._aps = window._aps || new Map();\<newline>''
           @ ''  if (!window._aps.has(accountID)) {\<newline>''
           @ ''    window._aps.set(accountID, { queue: [], store: new Map([['listeners', new Map()]]) });\<newline>''
           @ ''  }\<newline>''
           @ ''  window._aps.get(accountID).queue.push(\<newline>''
           @ ''    new CustomEvent('prebid/creative/render', {\<newline>''
           @ ''      detail: {\<newline>''
           @ ''        aaxResponse: '' @ [CHR 0x27] @ example_converted_payload @ [CHR 0x27] @ '',\<newline>''
           @ ''        seatBidId: "b-1"\<newline>''
           @ ''      }\<newline>''
           @ ''    })\<newline>''
           @ ''  );\<newline>''
           @ ''</script>'')\<close>
    by auto
  with example_response_interpreted m v c show ?thesis by blast
qed

section \<open>Claims about the error boundary of the operations\<close>

text \<open>
  C7: each of \<^verbatim>\<open>isBidRequestValid\<close>, \<^verbatim>\<open>buildRequests\<close>, \<^verbatim>\<open>interpretResponse\<close> and
  \<^verbatim>\<open>getUserSyncs\<close> returns for every input, so no exception reaches the caller. When
  the body of its \<^verbatim>\<open>try\<close> throws \<open>err\<close>, the operation returns \<^verbatim>\<open>undefined\<close>, and the
  world it leaves is the one after \<^verbatim>\<open>record('<operation>/didError', {error: err})\<close>
  and \<^verbatim>\<open>logError(message, err)\<close>. With telemetry on and an account configured that
  call of \<^verbatim>\<open>record\<close> puts an event named \<^verbatim>\<open>prebidAdapter/<operation>/didError\<close> with
  the error in its detail at the end of the account's queue, and \<open>err\<close> ends the log.
\<close>

theorem operations_swallow_exceptions:
  "(\<exists>v. fst (isBidRequestValid rt cfg bid w) = Inr v)
   \<and> (\<exists>v. fst (buildRequests rt lib cfg bidRequests bidderRequest w) = Inr v)
   \<and> (\<exists>v. fst (interpretResponse rt lib cfg response request w) = Inr v)
   \<and> (\<exists>v. fst (getUserSyncs cfg syncOptions serverResponses gdprConsent uspConsent w) = Inr v)
   \<and> (\<forall>err w1. isBidRequestValid_body rt cfg bid (record_js cfg ''isBidRequestValid'' None w)
                  = (Inl err, w1) \<longrightarrow>
         isBidRequestValid rt cfg bid w
           = (Inr JUndefined,
              logError ''Error while validating bid request'' err
                (record_js cfg ''isBidRequestValid/didError'' (Some [(''error'', err)]) w1)))
   \<and> (\<forall>err. buildRequests_body rt lib cfg bidRequests bidderRequest = Inl err \<longrightarrow>
         buildRequests rt lib cfg bidRequests bidderRequest w
           = (Inr JUndefined,
              logError ''Error while building bid request'' err
                (record_js cfg ''buildRequests/didError'' (Some [(''error'', err)])
                   (record_js cfg ''buildRequests'' None w))))
   \<and> (\<forall>err. interpretResponse_body rt lib cfg response request = Inl err \<longrightarrow>
         interpretResponse rt lib cfg response request w
           = (Inr JUndefined,
              logError ''Error while interpreting bid response'' err
                (record_js cfg ''interpretResponse/didError'' (Some [(''error'', err)])
                   (record_js cfg ''interpretResponse'' None w))))
   \<and> (\<forall>err. getUserSyncs_body syncOptions serverResponses gdprConsent uspConsent = Inl err \<longrightarrow>
         getUserSyncs cfg syncOptions serverResponses gdprConsent uspConsent w
           = (Inr JUndefined,
              logError ''Error while getting user syncs'' err
                (record_js cfg ''getUserSyncs/didError'' (Some [(''error'', err)])
                   (record_js cfg ''getUserSyncs'' None w))))
   \<and> (readConfig cfg ''aps.telemetry'' \<noteq> JBool False \<and> truthy (readConfig cfg ''aps.accountID'')
        \<longrightarrow> (\<forall>eventName msg err w0.
               \<exists>event. last_event (logError msg err
                                      (record_js cfg eventName (Some [(''error'', err)]) w0))
                          (readConfig cfg ''aps.accountID'') = Some event
                 \<and> ev_type event = finalEventName eventName
                 \<and> lookup (detail event) ''error'' = err
                 \<and> last (console (logError msg err
                                      (record_js cfg eventName (Some [(''error'', err)]) w0)))
                     = Err msg err))
   \<and> finalEventName ''isBidRequestValid/didError'' = ''prebidAdapter/isBidRequestValid/didError''
   \<and> finalEventName ''buildRequests/didError'' = ''prebidAdapter/buildRequests/didError''
   \<and> finalEventName ''interpretResponse/didError'' = ''prebidAdapter/interpretResponse/didError''
   \<and> finalEventName ''getUserSyncs/didError'' = ''prebidAdapter/getUserSyncs/didError''"
proof -
  have r: "\<exists>v. fst (isBidRequestValid rt cfg bid w) = Inr v"
    "\<exists>v. fst (buildRequests rt lib cfg bidRequests bidderRequest w) = Inr v"
    "\<exists>v. fst (interpretResponse rt lib cfg response request w) = Inr v"
    "\<exists>v. fst (getUserSyncs cfg syncOptions serverResponses gdprConsent uspConsent w) = Inr v"
    unfolding isBidRequestValid_def buildRequests_def interpretResponse_def getUserSyncs_def
    by (rule try_catch_returns, simp)+
  have c: "\<And>err w1. isBidRequestValid_body rt cfg bid (record_js cfg ''isBidRequestValid'' None w)
                  = (Inl err, w1) \<Longrightarrow>
         isBidRequestValid rt cfg bid w
           = (Inr JUndefined,
              logError ''Error while validating bid request'' err
                (record_js cfg ''isBidRequestValid/didError'' (Some [(''error'', err)]) w1))"
    "\<And>err. buildRequests_body rt lib cfg bidRequests bidderRequest = Inl err \<Longrightarrow>
         buildRequests rt lib cfg bidRequests bidderRequest w
           = (Inr JUndefined,
              logError ''Error while building bid request'' err
                (record_js cfg ''buildRequests/didError'' (Some [(''error'', err)])
                   (record_js cfg ''buildRequests'' None w)))"
    "\<And>err. interpretResponse_body rt lib cfg response request = Inl err \<Longrightarrow>
         interpretResponse rt lib cfg response request w
           = (Inr JUndefined,
              logError ''Error while interpreting bid response'' err
                (record_js cfg ''interpretResponse/didError'' (Some [(''error'', err)])
                   (record_js cfg ''interpretResponse'' None w)))"
    "\<And>err. getUserSyncs_body syncOptions serverResponses gdprConsent uspConsent = Inl err \<Longrightarrow>
         getUserSyncs cfg syncOptions serverResponses gdprConsent uspConsent w
           = (Inr JUndefined,
              logError ''Error while getting user syncs'' err
                (record_js cfg ''getUserSyncs/didError'' (Some [(''error'', err)])
                   (record_js cfg ''getUserSyncs'' None w)))"
    by (simp_all add: isBidRequestValid_def buildRequests_def interpretResponse_def
        getUserSyncs_def try_catch_def)
  have e: "\<exists>event. last_event (logError msg err
                                      (record_js cfg eventName (Some [(''error'', err)]) w0))
                          (readConfig cfg ''aps.accountID'') = Some event
                 \<and> ev_type event = finalEventName eventName
                 \<and> lookup (detail event) ''error'' = err
                 \<and> last (console (logError msg err
                                      (record_js cfg eventName (Some [(''error'', err)]) w0)))
                     = Err msg err"
    if "readConfig cfg ''aps.telemetry'' \<noteq> JBool False" "truthy (readConfig cfg ''aps.accountID'')"
    for eventName msg err w0
    using record_js_last_event [OF that, of eventName err w0]
    by auto
  show ?thesis
    using r c e didError_names by blast
qed


theorem operations_swallow_exceptions_witness:
  "isBidRequestValid example_runtime unprintable_account_config JNull empty_world
     = (Inr JUndefined,
        logError ''Error while validating bid request''
          (TypeError ''Cannot convert object to primitive value'')
          (record_js unprintable_account_config ''isBidRequestValid/didError''
             (Some [(''error'', TypeError ''Cannot convert object to primitive value'')])
             (record_js unprintable_account_config ''isBidRequestValid'' None empty_world)))
   \<and> interpretResponse_body example_runtime example_library example_config JNull
       example_server_request
     = Inl (TypeError ''cannot read property body'')
   \<and> fst (interpretResponse example_runtime example_library example_config JNull
            example_server_request empty_world) = Inr JUndefined
   \<and> (\<exists>event.
         last_event (snd (interpretResponse example_runtime example_library example_config JNull
                            example_server_request empty_world)) (JStr ''acct-1'') = Some event
         \<and> ev_type event = ''prebidAdapter/interpretResponse/didError''
         \<and> lookup (detail event) ''error'' = TypeError ''cannot read property body'')
   \<and> last (console (snd (interpretResponse example_runtime example_library example_config JNull
                            example_server_request empty_world)))
       = Err ''Error while interpreting bid response'' (TypeError ''cannot read property body'')"
proof -
  note T = operations_swallow_exceptions [where rt = example_runtime and cfg = example_config
      and lib = example_library and response = JNull and request = example_server_request
      and w = empty_world]
  have b: "interpretResponse_body example_runtime example_library example_config JNull
       example_server_request = Inl (TypeError ''cannot read property body'')"
    by code_simp
  have c: "readConfig example_config ''aps.telemetry'' \<noteq> JBool False"
    "truthy (readConfig example_config ''aps.accountID'')"
    "readConfig example_config ''aps.accountID'' = JStr ''acct-1''"
    by code_simp+
  from T b have op: "interpretResponse example_runtime example_library example_config JNull
       example_server_request empty_world
     = (Inr JUndefined,
        logError ''Error while interpreting bid response'' (TypeError ''cannot read property body'')
          (record_js example_config ''interpretResponse/didError''
             (Some [(''error'', TypeError ''cannot read property body'')])
             (record_js example_config ''interpretResponse'' None empty_world)))"
    by blast
  from T c(1,2) have "\<exists>event.
      last_event (logError ''Error while interpreting bid response''
                    (TypeError ''cannot read property body'')
                    (record_js example_config ''interpretResponse/didError''
                       (Some [(''error'', TypeError ''cannot read property body'')])
                       (record_js example_config ''interpretResponse'' None empty_world)))
        (readConfig example_config ''aps.accountID'') = Some event
      \<and> ev_type event = finalEventName ''interpretResponse/didError''
      \<and> lookup (detail event) ''error'' = TypeError ''cannot read property body''
      \<and> last (console (logError ''Error while interpreting bid response''
                    (TypeError ''cannot read property body'')
                    (record_js example_config ''interpretResponse/didError''
                       (Some [(''error'', TypeError ''cannot read property body'')])
                       (record_js example_config ''interpretResponse'' None empty_world))))
          = Err ''Error while interpreting bid response'' (TypeError ''cannot read property body'')"
    by blast
  moreover from T have "finalEventName ''interpretResponse/didError''
      = ''prebidAdapter/interpretResponse/didError''"
    by blast
  moreover have "isBidRequestValid example_runtime unprintable_account_config JNull empty_world
     = (Inr JUndefined,
        logError ''Error while validating bid request''
          (TypeError ''Cannot convert object to primitive value'')
          (record_js unprintable_account_config ''isBidRequestValid/didError''
             (Some [(''error'', TypeError ''Cannot convert object to primitive value'')])
             (record_js unprintable_account_config ''isBidRequestValid'' None empty_world)))"
  proof -
    have "isBidRequestValid_body example_runtime unprintable_account_config JNull
            (record_js unprintable_account_config ''isBidRequestValid'' None empty_world)
          = (Inl (TypeError ''Cannot convert object to primitive value''),
             record_js unprintable_account_config ''isBidRequestValid'' None empty_world)"
      by (simp add: isBidRequestValid_body_def isValidAccountID_def readConfig_def
          unprintable_account_config_def example_runtime_def example_ObjectToString_def
          has_own_def)
    with operations_swallow_exceptions [where rt = example_runtime
        and cfg = unprintable_account_config and bid = JNull and w = empty_world]
    show ?thesis by blast
  qed
  ultimately show ?thesis
    using b op c(3) by auto
qed

section \<open>Claims about user syncs\<close>

text \<open>
  C8: for a list of server responses whose \<^verbatim>\<open>ext.userSyncs\<close> are absent or lists of
  entries, and a sync-options object, \<^verbatim>\<open>getUserSyncs\<close> returns exactly the entries of
  the flattened lists whose type is \<^verbatim>\<open>iframe\<close> when iframe syncing is enabled, or
  \<^verbatim>\<open>image\<close> when pixel syncing is enabled. With iframe syncing alone enabled every
  returned entry has the type \<^verbatim>\<open>iframe\<close>, with pixel syncing alone the type \<^verbatim>\<open>image\<close>.
\<close>

theorem getUserSyncs_filters:
  assumes "array_method serverResponses ''flatMap''"
    and "\<not> nullish syncOptions"
    and "\<forall>res \<in> set (elems serverResponses).
           (nullish (opt_get (opt_get (opt_get res ''body'') ''ext'') ''userSyncs'')
            \<or> isArray (opt_get (opt_get (opt_get res ''body'') ''ext'') ''userSyncs''))
           \<and> (\<forall>s \<in> set (elems (opt_get (opt_get (opt_get res ''body'') ''ext'') ''userSyncs'')).
                 \<not> nullish s)"
  shows "fst (getUserSyncs cfg syncOptions serverResponses gdprConsent uspConsent w)
           = Inr (JArr (wanted_userSyncs syncOptions (elems serverResponses)) [])
       \<and> (truthy (prop_of syncOptions ''iframeEnabled'') \<and> \<not> truthy (prop_of syncOptions ''pixelEnabled'')
            \<longrightarrow> (\<forall>s \<in> set (wanted_userSyncs syncOptions (elems serverResponses)).
                   prop_of s ''type'' = JStr ''iframe''))
       \<and> (\<not> truthy (prop_of syncOptions ''iframeEnabled'') \<and> truthy (prop_of syncOptions ''pixelEnabled'')
            \<longrightarrow> (\<forall>s \<in> set (wanted_userSyncs syncOptions (elems serverResponses)).
                   prop_of s ''type'' = JStr ''image''))"
proof -
  have flat: "flatMap userSyncs_of (elems serverResponses)
      = concat (map (\<lambda>res. elems (opt_get (opt_get (opt_get res ''body'') ''ext'') ''userSyncs''))
                  (elems serverResponses))"
    unfolding flatMap_def
    by (rule arg_cong [where f = concat], rule map_cong, simp)
      (use assms(3) in \<open>simp add: flatten1_userSyncs_of\<close>)
  have entries: "\<not> nullish s"
    if "s \<in> set (flatMap userSyncs_of (elems serverResponses))" for s
    using that assms(3) unfolding flat by auto
  have "filterE (sync_allowed syncOptions) (flatMap userSyncs_of (elems serverResponses))
      = Inr (wanted_userSyncs syncOptions (elems serverResponses))"
    unfolding wanted_userSyncs_def flat [symmetric]
    by (rule filterE_total) (simp add: sync_allowed_eq entries assms(2))
  moreover have "\<not> nullish serverResponses"
    using assms(1) by (cases serverResponses) (simp_all add: array_method_def)
  ultimately have "getUserSyncs_body syncOptions serverResponses gdprConsent uspConsent
      = Inr (JArr (wanted_userSyncs syncOptions (elems serverResponses)) [])"
    using assms(1) by (simp add: getUserSyncs_body_def Let_def thenE_def)
  then have "fst (getUserSyncs cfg syncOptions serverResponses gdprConsent uspConsent w)
           = Inr (JArr (wanted_userSyncs syncOptions (elems serverResponses)) [])"
    by (simp add: getUserSyncs_def try_catch_def)
  then show ?thesis by (auto simp add: wanted_userSyncs_def)
qed


theorem getUserSyncs_filters_witness:
  "fst (getUserSyncs example_config iframe_only example_serverResponses JUndefined JUndefined
          empty_world)
     = Inr (JArr [JObj [(''type'', JStr ''iframe''), (''url'', JStr ''https://a.example/i'')]] [])
   \<and> fst (getUserSyncs example_config pixel_only example_serverResponses JUndefined JUndefined
            empty_world)
       = Inr (JArr [JObj [(''type'', JStr ''image''), (''url'', JStr ''https://b.example/p'')],
                    JObj [(''type'', JStr ''image''), (''url'', JStr ''https://c.example/p'')]] [])"
proof -
  have a: "array_method example_serverResponses ''flatMap''"
    by code_simp
  have o: "\<not> nullish iframe_only" "\<not> nullish pixel_only"
    by code_simp+
  have l: "\<forall>res \<in> set (elems example_serverResponses).
           (nullish (opt_get (opt_get (opt_get res ''body'') ''ext'') ''userSyncs'')
            \<or> isArray (opt_get (opt_get (opt_get res ''body'') ''ext'') ''userSyncs''))
           \<and> (\<forall>s \<in> set (elems (opt_get (opt_get (opt_get res ''body'') ''ext'') ''userSyncs'')).
                 \<not> nullish s)"
    by code_simp
  have w: "wanted_userSyncs iframe_only (elems example_serverResponses)
             = [JObj [(''type'', JStr ''iframe''), (''url'', JStr ''https://a.example/i'')]]"
    "wanted_userSyncs pixel_only (elems example_serverResponses)
             = [JObj [(''type'', JStr ''image''), (''url'', JStr ''https://b.example/p'')],
                JObj [(''type'', JStr ''image''), (''url'', JStr ''https://c.example/p'')]]"
    by code_simp+
  show ?thesis
    using getUserSyncs_filters [OF a o(1) l, of example_config JUndefined JUndefined empty_world]
      getUserSyncs_filters [OF a o(2) l, of example_config JUndefined JUndefined empty_world]
      w
    by simp
qed

end
